theory Spec2Isabelle
  imports Main "HOL-Library.Sublist" "HOL-Library.AList"
begin

section \<open>JavaScript string primitives used by the Plugin Manager\<close>

text \<open>
  Source strings are modelled as \<open>string\<close> (lists of 8-bit characters, one per code unit).
  \<open>substring\<close> follows \<open>String.prototype.substring\<close>: both indices are clamped to the
  length and swapped when out of order. \<open>trim\<close> follows \<open>String.prototype.trim\<close> on the
  white space that exists among 8-bit characters (TAB, LF, VT, FF, CR, SPACE, NBSP).
\<close>

definition substring :: "string \<Rightarrow> nat \<Rightarrow> nat \<Rightarrow> string" where
  "substring text a b =
     (let a' = min a (length text); b' = min b (length text);
          lo = min a' b'; hi = max a' b'
      in take (hi - lo) (drop lo text))"

definition is_ws :: "char \<Rightarrow> bool" where
  "is_ws c = (c \<in> set [CHR 0x09, CHR 0x0A, CHR 0x0B, CHR 0x0C, CHR 0x0D, CHR 0x20, CHR 0xA0])"

definition trim :: "string \<Rightarrow> string" where
  "trim s = rev (dropWhile is_ws (rev (dropWhile is_ws s)))"

text \<open>\<open>String.prototype.includes\<close>: the second string occurs somewhere in the first.\<close>

fun str_includes :: "string \<Rightarrow> string \<Rightarrow> bool" where
  "str_includes [] f = (f = [])"
| "str_includes (c # cs) f = (prefix f (c # cs) \<or> str_includes cs f)"

text \<open>\<open>String.prototype.split\<close> with a one-character separator: never the empty list.\<close>

fun split_on :: "char \<Rightarrow> string \<Rightarrow> string list" where
  "split_on sep [] = [[]]"
| "split_on sep (c # cs) =
     (if c = sep then [] # split_on sep cs
      else (case split_on sep cs of [] \<Rightarrow> [[c]] | p # ps \<Rightarrow> (c # p) # ps))"

text \<open>\<open>Array.prototype.join\<close>.\<close>

fun join :: "string \<Rightarrow> string list \<Rightarrow> string" where
  "join sep [] = []"
| "join sep [x] = x"
| "join sep (x # y # ys) = x @ sep @ join sep (y # ys)"

text \<open>
  \<open>toLowerCase\<close> on the letters that exist among 8-bit characters: \<open>A\<close> to \<open>Z\<close> and the
  Latin-1 capitals 0xC0 to 0xDE (0xD7, the multiplication sign, is no letter), each 0x20 below
  its small letter. \<open>toUpperCase\<close> is used on HTTP method names only and is given on the
  ASCII letters.
\<close>

definition lower_char :: "char \<Rightarrow> char" where
  "lower_char c =
     (case map_of (zip (''ABCDEFGHIJKLMNOPQRSTUVWXYZ'' @
                        [CHR 0xC0, CHR 0xC1, CHR 0xC2, CHR 0xC3, CHR 0xC4, CHR 0xC5, CHR 0xC6,
                         CHR 0xC7, CHR 0xC8, CHR 0xC9, CHR 0xCA, CHR 0xCB, CHR 0xCC, CHR 0xCD,
                         CHR 0xCE, CHR 0xCF, CHR 0xD0, CHR 0xD1, CHR 0xD2, CHR 0xD3, CHR 0xD4,
                         CHR 0xD5, CHR 0xD6, CHR 0xD8, CHR 0xD9, CHR 0xDA, CHR 0xDB, CHR 0xDC,
                         CHR 0xDD, CHR 0xDE])
                       (''abcdefghijklmnopqrstuvwxyz'' @
                        [CHR 0xE0, CHR 0xE1, CHR 0xE2, CHR 0xE3, CHR 0xE4, CHR 0xE5, CHR 0xE6,
                         CHR 0xE7, CHR 0xE8, CHR 0xE9, CHR 0xEA, CHR 0xEB, CHR 0xEC, CHR 0xED,
                         CHR 0xEE, CHR 0xEF, CHR 0xF0, CHR 0xF1, CHR 0xF2, CHR 0xF3, CHR 0xF4,
                         CHR 0xF5, CHR 0xF6, CHR 0xF8, CHR 0xF9, CHR 0xFA, CHR 0xFB, CHR 0xFC,
                         CHR 0xFD, CHR 0xFE])) c of
        Some l \<Rightarrow> l | None \<Rightarrow> c)"

definition upper_char :: "char \<Rightarrow> char" where
  "upper_char c =
     (case map_of (zip ''abcdefghijklmnopqrstuvwxyz'' ''ABCDEFGHIJKLMNOPQRSTUVWXYZ'') c of
        Some u \<Rightarrow> u | None \<Rightarrow> c)"

definition toLowerCase :: "string \<Rightarrow> string" where
  "toLowerCase s = map lower_char s"

definition toUpperCase :: "string \<Rightarrow> string" where
  "toUpperCase s = map upper_char s"

section \<open>Block Extractor\<close>

text \<open>
  \<open>extractBlockContent(text, startIndex)\<close> of \<open>src/PluginManager.ts\<close>. The first loop
  looks for an opening brace from \<open>startIndex\<close> on and leaves \<open>i\<close> just past it; the second
  loop scans with the nesting depth (1 on entry) and stops at the closing brace that brings it
  back to 0, or at the end of the text. Every caller passes the index of a regular-expression
  match, so the start index is a natural number.
\<close>

record block =
  content :: string
  endIndex :: nat

function find_open :: "string \<Rightarrow> nat \<Rightarrow> nat option" where
  "find_open text i =
     (if i < length text
      then (if text ! i = CHR ''{'' then Some (i + 1) else find_open text (i + 1))
      else None)"
  by pat_completeness auto
termination
  by (relation "measure (\<lambda>(text, i). length text - i)") auto

function scan_close :: "string \<Rightarrow> nat \<Rightarrow> int \<Rightarrow> nat" where
  "scan_close text i depth =
     (if i < length text
      then (if text ! i = CHR ''{'' then scan_close text (i + 1) (depth + 1)
            else if text ! i = CHR ''}''
                 then (if depth - 1 = 0 then i else scan_close text (i + 1) (depth - 1))
                 else scan_close text (i + 1) depth)
      else i)"
  by pat_completeness auto
termination
  by (relation "measure (\<lambda>(text, i, depth). length text - i)") auto

declare find_open.simps [simp del]
declare scan_close.simps [simp del]

definition extractBlockContent :: "string \<Rightarrow> nat \<Rightarrow> block" where
  "extractBlockContent text startIndex =
     (case find_open text startIndex of
        None \<Rightarrow> \<lparr>content = [], endIndex = startIndex\<rparr>
      | Some contentStart \<Rightarrow>
          (let i = scan_close text contentStart 1
           in \<lparr>content = trim (substring text contentStart i), endIndex = i + 1\<rparr>))"

text \<open>
  The nesting depth that a piece of text adds: opening braces minus closing braces. A block
  body is \<open>closed_body\<close> when it returns to the depth it started at without ever going below
  it, so the brace right after it matches the brace right before it. A remainder is
  \<open>never_closed\<close> when no prefix of it goes below its starting depth: the brace before it
  has no matching closing brace.
\<close>

definition depth_of :: "string \<Rightarrow> int" where
  "depth_of s = int (count_list s CHR ''{'') - int (count_list s CHR ''}'')"

definition never_closed :: "string \<Rightarrow> bool" where
  "never_closed s = list_all (\<lambda>n. 0 \<le> depth_of (take n s)) [0..<Suc (length s)]"

definition closed_body :: "string \<Rightarrow> bool" where
  "closed_body s = (never_closed s \<and> depth_of s = 0)"

section \<open>Scope Validator\<close>

text \<open>
  The table \<open>MODULE_REQUIREMENTS\<close> in the order of the source (the order in which
  \<open>Object.entries\<close> enumerates it), and \<open>ImportValidator.validate\<close>. The set
  \<open>requiredScopes\<close> is a JavaScript \<open>Set\<close>: a list in insertion order without
  duplicates.
\<close>

definition MODULE_REQUIREMENTS :: "(string \<times> string list) list" where
  "MODULE_REQUIREMENTS =
    [(''buttons.create_button'', [''buttons.use'']),
     (''buttons.create'', [''buttons.use'']),
     (''on_click'', [''buttons.use'']),
     (''interactions.create'', [''buttons.use'']),
     (''db.set'', [''db.write'']),
     (''db.use'', [''db.read'']),
     (''db.send'', [''messages.send'']),
     (''db.insert'', [''db.write'']),
     (''db.update'', [''db.write'']),
     (''db.delete'', [''db.write'']),
     (''db.query'', [''db.read'']),
     (''db.query_one'', [''db.read'']),
     (''guilds.send'', [''messages.send'']),
     (''guilds.create_channel'', [''channels.create'']),
     (''guilds.fetch_channel'', [''channels.read'']),
     (''guilds.fetch'', [''channels.read'']),
     (''channel.delete'', [''channels.delete'']),
     (''channel.send'', [''messages.send'']),
     (''embeds.create'', [''messages.send'']),
     (''fastlink.connect'', [''voice.connect'']),
     (''users.get'', [''messages.send'']),
     (''users.fetch'', [''messages.send'']),
     (''user_has_permission'', [''messages.send'']),
     (''discord.permissions.has'', [''messages.send'']),
     (''on_member_join'', [''messages.send'']),
     (''on_member_leave'', [''messages.send'']),
     (''on_member_update'', [''messages.send'']),
     (''on_message_delete'', [''messages.send'']),
     (''on_voice_state_change'', [''voice.connect'']),
     (''on_reaction'', [''events.reaction'']),
     (''on_setting'', [''messages.send'']),
     (''on_load'', [''db.read'', ''db.write'']),
     (''emit.trigger'', [''messages.send'']),
     (''cooldown.is_on'', [''messages.send'']),
     (''cooldown.remaining'', [''messages.send'']),
     (''cooldown.set'', [''messages.send'']),
     (''time.now'', [''messages.send'']),
     (''math.random_int'', [''messages.send'']),
     (''event '', [''messages.send'']),
     (''logic'', [''messages.send''])]"

record validation =
  valid :: bool
  errors :: "string list"
  warnings :: "string list"

definition set_add :: "string list \<Rightarrow> string \<Rightarrow> string list" where
  "set_add xs x = (if x \<in> set xs then xs else xs @ [x])"

definition requiredScopes :: "string \<Rightarrow> string list" where
  "requiredScopes dslCode =
     foldl (\<lambda>acc (feature, required).
              if str_includes dslCode feature then foldl set_add acc required else acc)
           [] MODULE_REQUIREMENTS"

definition missingScopes :: "string \<Rightarrow> string list \<Rightarrow> string list" where
  "missingScopes dslCode scopes = filter (\<lambda>required. required \<notin> set scopes) (requiredScopes dslCode)"

definition usedModules :: "string \<Rightarrow> string list" where
  "usedModules dslCode =
     foldl (\<lambda>acc (feature, required).
              if str_includes dslCode feature
              then (case split_on CHR ''.'' feature of
                      p # q # ps \<Rightarrow> set_add acc p
                    | _ \<Rightarrow> acc)
              else acc)
           [] MODULE_REQUIREMENTS"

definition unusedImports :: "string \<Rightarrow> string list \<Rightarrow> string list" where
  "unusedImports dslCode declaredImports =
     filter (\<lambda>declared.
               (case split_on CHR ''.'' declared of
                  [] \<Rightarrow> True
                | modulePrefix # ps \<Rightarrow> modulePrefix \<notin> set (usedModules dslCode))
               \<and> declared \<notin> set (usedModules dslCode))
            declaredImports"

definition validate :: "string \<Rightarrow> string list \<Rightarrow> string list \<Rightarrow> validation" where
  "validate dslCode declaredImports scopes =
     (let missing = missingScopes dslCode scopes;
          errs = (if length missing > 0
                  then [''Missing required scopes in manifest: '' @ join '', '' missing]
                  else []);
          unused = unusedImports dslCode declaredImports;
          warns = (if length unused > 0
                   then [''Unused 'use' statements (can be removed): '' @ join '', '' unused]
                   else [])
      in \<lparr>valid = (length errs = 0), errors = errs, warnings = warns\<rparr>)"

section \<open>Data model of the Plugin Manager\<close>

text \<open>
  The interfaces of \<open>src/PluginManager.ts\<close>. A JavaScript \<open>Map\<close> that is iterated is an
  association list in insertion order (\<open>get\<close> is \<open>map_of\<close>, \<open>set\<close> is \<open>AList.update\<close>,
  \<open>delete\<close> is \<open>AList.delete\<close>); a \<open>Map\<close> that is only looked up is a partial function.
  An optional field is an \<open>option\<close>. Where two interfaces share a field name, the later
  record carries a prefix.
\<close>

datatype ptype = PString | PInt | PBool

datatype pvalue = VString string | VInt int | VBool bool | VUndefined | VInherited

record ParameterDef =
  ptype :: ptype
  param_description :: string
  required :: bool

record CommandHandler =
  description :: string
  usage :: string
  parameters :: "(string \<times> ParameterDef) list"
  cooldown :: "nat option"
  userPermissions :: "string list option"
  botPermissions :: "string list option"
  onCommand :: string
  onCooldown :: "string option"
  onPermissionDeniedUser :: "string option"
  onPermissionDeniedBot :: "string option"

record ButtonHandler =
  btn_cooldown :: "nat option"
  execute :: string
  btn_onCooldown :: "string option"

text \<open>The objects that \<open>parseReactionHandlers\<close> pushes onto \<open>eventHandlers.onReaction\<close>.\<close>

record ReactionHandler =
  rh_cooldown :: "nat option"
  rh_onCooldown :: string
  rh_execute :: string

datatype logic_type = on_listen | on_trigger

record LogicHandler =
  pattern :: string
  action :: string
  logic_type :: logic_type

record PluginManifest =
  name :: string
  version :: string
  author :: string
  manifest_description :: string
  tags :: "string list"
  scopes :: "string list"
  price :: int
  homepage :: string
  iconUrl :: string
  license :: string
  faq :: string

record Setting =
  setting_type :: ptype
  setting_description :: string
  setting_default :: pvalue
  setting_value :: "pvalue option"

type_synonym PluginSettings = "(string \<times> Setting) list"

record InstalledPlugin =
  itemId :: string
  guildId :: string
  manifest :: PluginManifest
  dslCode :: string
  settings :: PluginSettings
  installedAt :: int
  enabled :: bool
  ip_imports :: "string list"

record LoadedPlugin =
  lp_itemId :: string
  lp_manifest :: PluginManifest
  lp_dslCode :: string
  lp_settings :: PluginSettings
  lp_imports :: "string list"
  commands :: "(string \<times> CommandHandler) list"
  buttonHandlers :: "(string \<times> ButtonHandler) list"
  onReaction :: "ReactionHandler list"
  customEvents :: "(string \<times> string list) list"
  customFunctions :: "(string \<times> string) list"
  logicHandlers :: "LogicHandler list"

text \<open>The errors that the HTTP client throws, as values (the source carries them as the
  message of an \<open>Error\<close>); \<open>RequestFailed\<close> is a rejection of the network call itself.\<close>

datatype http_error =
    InvalidUrl
  | MalformedUrl
  | DomainBlocked string
  | RateLimitPerMinute int
  | RateLimitPerHour int
  | UnsupportedMethod string
  | RequestFailed string int

record HttpRequestLog =
  timestamp :: int
  log_method :: string
  log_url :: string
  status :: int
  responseSize :: nat
  duration :: int
  pluginId :: string
  log_guildId :: string
  success :: bool
  errorReason :: "http_error option"

record RequestLimits =
  maxRequestsPerMinute :: int
  maxRequestsPerHour :: int
  maxDataPerRequest :: int
  timeoutMs :: int

record Manager =
  installedPlugins :: "string \<rightharpoonup> InstalledPlugin list"
  loadedPlugins :: "string \<rightharpoonup> (string \<times> LoadedPlugin) list"
  cooldowns :: "string \<rightharpoonup> int"
  httpLogs :: "string \<rightharpoonup> HttpRequestLog list"
  blockedDomains :: "string set"
  requestLimits :: RequestLimits

text \<open>The state that the constructor builds.\<close>

definition newManager :: Manager where
  "newManager =
     \<lparr>installedPlugins = Map.empty, loadedPlugins = Map.empty, cooldowns = Map.empty,
      httpLogs = Map.empty, blockedDomains = {},
      requestLimits = \<lparr>maxRequestsPerMinute = 30, maxRequestsPerHour = 200,
                         maxDataPerRequest = 50 * 1024 * 1024, timeoutMs = 10000\<rparr>\<rparr>"

text \<open>
  What a dispatch does to the outside is a list of effects, in order: a reply to the
  triggering message, or a call of \<open>executeCode(plugin, code, context)\<close>, which transpiles
  the body and runs it in the plugin's VM. The context is tagged by the shape of the
  object the dispatcher builds for it.
\<close>

datatype exec_context =
    CommandContext "string \<rightharpoonup> pvalue"
  | ListenerContext
  | InteractionContext
  | ReactionContext
  | EventContext
  | FunctionContext "string \<rightharpoonup> string"
  | CommandTriggerContext

datatype effect =
    Reply string
  | ExecuteCode string string exec_context

section \<open>Dispatcher: commands\<close>

text \<open>
  \<open>handleCommand(message)\<close>. Two things the plugin's VM and the JavaScript runtime decide are
  parameters of the model: \<open>parseInt\<close> (\<open>None\<close> for \<open>NaN\<close>) and \<open>evalPattern\<close>, which says
  whether the VM run of a listener predicate on the message returned \<open>true\<close> (a run that
  throws is caught by the listener loop and counts as \<open>False\<close>).
\<close>

record Message =
  m_guild :: "string option"
  m_content :: string
  m_authorId :: string
  m_channelId :: string
  m_id :: string

definition handleLogicListeners ::
  "(LoadedPlugin \<Rightarrow> string \<Rightarrow> Message \<Rightarrow> bool) \<Rightarrow> (string \<times> LoadedPlugin) list \<Rightarrow> Message
   \<Rightarrow> effect list" where
  "handleLogicListeners evalPattern plugins message =
     concat (map (\<lambda>(item, plugin).
       concat (map (\<lambda>handler.
         if logic_type handler = on_listen \<and> evalPattern plugin (pattern handler) message
         then [ExecuteCode item (action handler) ListenerContext] else [])
         (logicHandlers plugin))) plugins)"

text \<open>
  The object \<open>const parameters: any = {}\<close>. The model keeps its own properties as a map;
  what the object inherits from \<open>Object.prototype\<close> shows in the two operations. A read of a
  key that is no own property finds the inherited property of that name, if there is one
  (\<open>VInherited\<close> stands for such a function or object). A write of a primitive value makes
  an own property, except under the key \<open>__proto__\<close>: that is an accessor of
  \<open>Object.prototype\<close>, whose setter ignores every value that is neither an object nor
  \<open>null\<close>, so the write does nothing and a read still gives the prototype. The dispatcher
  writes strings, numbers, booleans and \<open>undefined\<close> only.
\<close>

definition object_prototype_keys :: "string list" where
  "object_prototype_keys =
     [''constructor'', ''__defineGetter__'', ''__defineSetter__'', ''hasOwnProperty'',
      ''__lookupGetter__'', ''__lookupSetter__'', ''isPrototypeOf'', ''propertyIsEnumerable'',
      ''toString'', ''valueOf'', ''__proto__'', ''toLocaleString'']"

definition obj_set :: "(string \<rightharpoonup> pvalue) \<Rightarrow> string \<Rightarrow> pvalue \<Rightarrow> (string \<rightharpoonup> pvalue)" where
  "obj_set ps key v = (if key = ''__proto__'' then ps else ps(key \<mapsto> v))"

definition obj_get :: "(string \<rightharpoonup> pvalue) \<Rightarrow> string \<Rightarrow> pvalue option" where
  "obj_get ps key =
     (case ps key of
        Some v \<Rightarrow> Some v
      | None \<Rightarrow> if key \<in> set object_prototype_keys then Some VInherited else None)"

text \<open>
  The loop that binds the positional arguments to the declared parameters: a string
  parameter takes all remaining tokens, an int or bool parameter takes one; a required
  parameter with no token left is set to \<open>undefined\<close>.
\<close>

fun bindParameters ::
  "(string \<Rightarrow> int option) \<Rightarrow> (string \<times> ParameterDef) list \<Rightarrow> string list \<Rightarrow> nat
   \<Rightarrow> (string \<rightharpoonup> pvalue) \<Rightarrow> (string \<rightharpoonup> pvalue)" where
  "bindParameters parseInt [] args argIndex ps = ps"
| "bindParameters parseInt ((key, def) # rest) args argIndex ps =
     (if argIndex < length args
      then (case ptype def of
              PString \<Rightarrow>
                bindParameters parseInt rest args (length args)
                  (obj_set ps key (VString (join '' '' (drop argIndex args))))
            | PInt \<Rightarrow>
                bindParameters parseInt rest args (argIndex + 1)
                  (obj_set ps key (case parseInt (args ! argIndex) of
                                     None \<Rightarrow> VString (args ! argIndex)
                                   | Some intValue \<Rightarrow> VInt intValue))
            | PBool \<Rightarrow>
                bindParameters parseInt rest args (argIndex + 1)
                  (obj_set ps key (VBool (toLowerCase (args ! argIndex) = ''true''
                                           \<or> args ! argIndex = ''1''))))
      else if required def
           then bindParameters parseInt rest args argIndex (obj_set ps key VUndefined)
           else bindParameters parseInt rest args argIndex ps)"

text \<open>\<open>parameters[key] === undefined || parameters[key] === null || parameters[key] === ''\<close>\<close>

fun is_missing :: "pvalue option \<Rightarrow> bool" where
  "is_missing None = True"
| "is_missing (Some VUndefined) = True"
| "is_missing (Some (VString v)) = (v = [])"
| "is_missing (Some (VInt v)) = False"
| "is_missing (Some (VBool v)) = False"
| "is_missing (Some VInherited) = False"

definition missingParams :: "CommandHandler \<Rightarrow> (string \<rightharpoonup> pvalue) \<Rightarrow> string list" where
  "missingParams handler ps =
     map fst (filter (\<lambda>(key, def). required def \<and> is_missing (obj_get ps key))
                (parameters handler))"

text \<open>The reply; the cross mark U+274C is written as its three UTF-8 bytes.\<close>

definition missingParamsMessage :: "string list \<Rightarrow> string \<Rightarrow> string" where
  "missingParamsMessage missing usageString =
     [CHR 0xE2, CHR 0x9D, CHR 0x8C] @ '' **Missing Required Parameters**'' @ [CHR 0x0A, CHR 0x0A]
     @ ''This command requires: '' @ join '', '' missing @ [CHR 0x0A, CHR 0x0A]
     @ ''**Usage:** '' @ usageString"

definition invokeCommand ::
  "(string \<Rightarrow> int option) \<Rightarrow> string \<Rightarrow> CommandHandler \<Rightarrow> string list \<Rightarrow> effect list" where
  "invokeCommand parseInt item handler args =
     (let ps = bindParameters parseInt (parameters handler) args 0 Map.empty;
          missing = missingParams handler ps
      in if length missing > 0
         then [Reply (missingParamsMessage missing (usage handler))]
         else [ExecuteCode item (onCommand handler) (CommandContext ps)])"

text \<open>The two-token (base and sub) match: the first remaining token is consumed when some
  loaded plugin has a command of that dotted name.\<close>

definition resolveSubcommand ::
  "(string \<times> LoadedPlugin) list \<Rightarrow> string \<Rightarrow> string list \<Rightarrow> string \<times> string list" where
  "resolveSubcommand guildPlugins commandName args =
     (case args of
        [] \<Rightarrow> (commandName, args)
      | a # rest \<Rightarrow>
          (let potentialSubcommand = commandName @ ''.'' @ toLowerCase a
           in if list_ex (\<lambda>(item, plugin). map_of (commands plugin) potentialSubcommand \<noteq> None)
                   guildPlugins
              then (potentialSubcommand, rest) else (commandName, args)))"

text \<open>The loop over the loaded plugins of the guild: the first plugin that has a handler
  for the command name is the one that runs.\<close>

fun findCommand :: "string \<Rightarrow> (string \<times> LoadedPlugin) list \<Rightarrow> (string \<times> CommandHandler) option"
  where
  "findCommand commandName [] = None"
| "findCommand commandName ((item, plugin) # rest) =
     (case map_of (commands plugin) commandName of
        Some handler \<Rightarrow> Some (item, handler)
      | None \<Rightarrow> findCommand commandName rest)"

text \<open>From the message text to the matched handler and the positional tokens left for it:
  the text starts with \<open>?\<close>, the rest is split at spaces, the first token in lower case is
  the command name (possibly extended by the second token), the others are the arguments.\<close>

definition matchCommand ::
  "(string \<times> LoadedPlugin) list \<Rightarrow> string \<Rightarrow> (string \<times> CommandHandler \<times> string list) option"
  where
  "matchCommand guildPlugins line =
     (if \<not> prefix ''?'' line then None
      else (case split_on CHR '' '' (drop 1 line) of
              [] \<Rightarrow> None
            | first # args \<Rightarrow>
                (if toLowerCase first = [] then None
                 else (case resolveSubcommand guildPlugins (toLowerCase first) args of
                         (commandName, args') \<Rightarrow>
                           (case findCommand commandName guildPlugins of
                              None \<Rightarrow> None
                            | Some (item, handler) \<Rightarrow> Some (item, handler, args'))))))"

definition handleCommand ::
  "(string \<Rightarrow> int option) \<Rightarrow> (LoadedPlugin \<Rightarrow> string \<Rightarrow> Message \<Rightarrow> bool) \<Rightarrow> Manager \<Rightarrow> Message
   \<Rightarrow> effect list" where
  "handleCommand parseInt evalPattern st message =
     (case m_guild message of
        None \<Rightarrow> []
      | Some g \<Rightarrow>
          (case loadedPlugins st g of
             None \<Rightarrow> []
           | Some guildPlugins \<Rightarrow>
               handleLogicListeners evalPattern guildPlugins message @
               (case matchCommand guildPlugins (m_content message) of
                  None \<Rightarrow> []
                | Some (item, handler, args) \<Rightarrow> invokeCommand parseInt item handler args)))"

section \<open>Dispatcher: buttons\<close>

text \<open>\<open>handleButton(interaction)\<close>: the loop over the loaded plugins of the guild returns at
  the first plugin that has a handler for the button id.\<close>

record Interaction =
  i_guild :: "string option"
  customId :: string
  i_userId :: string
  createdTimestamp :: int

fun buttonLoop :: "string \<Rightarrow> (string \<times> LoadedPlugin) list \<Rightarrow> effect list" where
  "buttonLoop buttonId [] = []"
| "buttonLoop buttonId ((item, plugin) # rest) =
     (case map_of (buttonHandlers plugin) buttonId of
        Some handler \<Rightarrow> [ExecuteCode item (execute handler) InteractionContext]
      | None \<Rightarrow> buttonLoop buttonId rest)"

definition handleButton :: "Manager \<Rightarrow> Interaction \<Rightarrow> effect list" where
  "handleButton st interaction =
     (case i_guild interaction of
        None \<Rightarrow> []
      | Some g \<Rightarrow>
          (case loadedPlugins st g of
             None \<Rightarrow> []
           | Some plugins \<Rightarrow> buttonLoop (customId interaction) plugins))"

section \<open>Dispatcher: reactions\<close>

text \<open>
  The \<open>messageReactionAdd\<close> listener of \<open>setupEventListeners\<close>. The listener reads
  \<open>Date.now()\<close> anew at every test and every setting of a cooldown, after it has awaited
  the bodies before: \<open>clock n\<close> is the \<open>n\<close>-th reading during the event, and the dispatch
  counts its readings. A body that \<open>executeCode\<close> runs can itself write the cooldown store
  (through \<open>cooldown.set\<close> of its VM): \<open>runBody item code cds\<close> is the store that the run
  of the body leaves. A cooldown is in force when the handler's field is truthy (defined and
  not 0); the key of the cooldown entry is built from the guild, the plugin, the constant
  \<open>'reaction_handler'\<close> and the user.
\<close>

record ReactionEvent =
  r_userBot :: bool
  r_userId :: string
  r_guild :: "string option"
  r_channelId :: string
  r_messageId :: string
  r_emoji :: string

definition cdKey :: "string \<Rightarrow> string \<Rightarrow> string \<Rightarrow> string \<Rightarrow> string" where
  "cdKey guild item cooldownKey user = guild @ '':'' @ item @ '':'' @ cooldownKey @ '':'' @ user"

definition truthy :: "nat option \<Rightarrow> bool" where
  "truthy c = (case c of None \<Rightarrow> False | Some n \<Rightarrow> n \<noteq> 0)"

definition run_body ::
  "(string \<Rightarrow> string \<Rightarrow> (string \<rightharpoonup> int) \<Rightarrow> (string \<rightharpoonup> int)) \<Rightarrow> string \<Rightarrow> string
   \<Rightarrow> (string \<rightharpoonup> int) \<Rightarrow> effect list \<times> (string \<rightharpoonup> int)" where
  "run_body runBody item code cds =
     (if code \<noteq> [] then ([ExecuteCode item code ReactionContext], runBody item code cds)
      else ([], cds))"

definition reactionStep ::
  "(nat \<Rightarrow> int) \<Rightarrow> (string \<Rightarrow> string \<Rightarrow> (string \<rightharpoonup> int) \<Rightarrow> (string \<rightharpoonup> int))
   \<Rightarrow> string \<Rightarrow> string \<Rightarrow> string \<Rightarrow> ReactionHandler \<Rightarrow> (string \<rightharpoonup> int) \<times> nat
   \<Rightarrow> effect list \<times> (string \<rightharpoonup> int) \<times> nat" where
  "reactionStep clock runBody guild item user handler state =
     (case state of
        (cds, tick) \<Rightarrow>
          if truthy (rh_cooldown handler)
          then (let k = cdKey guild item ''reaction_handler'' user;
                    expiry = (case cds k of None \<Rightarrow> 0 | Some e \<Rightarrow> e)
                in if clock tick < expiry
                   then (case run_body runBody item (rh_onCooldown handler) cds of
                           (es, cds1) \<Rightarrow> (es, cds1, tick + 1))
                   else (case run_body runBody item (rh_execute handler)
                                (cds(k \<mapsto> clock (tick + 1) + int (the (rh_cooldown handler)) * 1000)) of
                           (es, cds1) \<Rightarrow> (es, cds1, tick + 2)))
          else (case run_body runBody item (rh_execute handler) cds of
                  (es, cds1) \<Rightarrow> (es, cds1, tick)))"

fun reactionHandlers ::
  "(nat \<Rightarrow> int) \<Rightarrow> (string \<Rightarrow> string \<Rightarrow> (string \<rightharpoonup> int) \<Rightarrow> (string \<rightharpoonup> int))
   \<Rightarrow> string \<Rightarrow> string \<Rightarrow> string \<Rightarrow> ReactionHandler list \<Rightarrow> (string \<rightharpoonup> int) \<times> nat
   \<Rightarrow> effect list \<times> (string \<rightharpoonup> int) \<times> nat" where
  "reactionHandlers clock runBody guild item user [] state = ([], state)"
| "reactionHandlers clock runBody guild item user (handler # rest) state =
     (case reactionStep clock runBody guild item user handler state of
        (es, state1) \<Rightarrow>
          (case reactionHandlers clock runBody guild item user rest state1 of
             (es', state2) \<Rightarrow> (es @ es', state2)))"

fun reactionPlugins ::
  "(nat \<Rightarrow> int) \<Rightarrow> (string \<Rightarrow> string \<Rightarrow> (string \<rightharpoonup> int) \<Rightarrow> (string \<rightharpoonup> int))
   \<Rightarrow> string \<Rightarrow> string \<Rightarrow> (string \<times> LoadedPlugin) list \<Rightarrow> (string \<rightharpoonup> int) \<times> nat
   \<Rightarrow> effect list \<times> (string \<rightharpoonup> int) \<times> nat" where
  "reactionPlugins clock runBody guild user [] state = ([], state)"
| "reactionPlugins clock runBody guild user ((item, plugin) # rest) state =
     (case reactionHandlers clock runBody guild item user (onReaction plugin) state of
        (es, state1) \<Rightarrow>
          (case reactionPlugins clock runBody guild user rest state1 of
             (es', state2) \<Rightarrow> (es @ es', state2)))"

definition onMessageReactionAdd ::
  "(nat \<Rightarrow> int) \<Rightarrow> (string \<Rightarrow> string \<Rightarrow> (string \<rightharpoonup> int) \<Rightarrow> (string \<rightharpoonup> int))
   \<Rightarrow> Manager \<Rightarrow> ReactionEvent \<Rightarrow> effect list \<times> Manager" where
  "onMessageReactionAdd clock runBody st ev =
     (if r_userBot ev then ([], st)
      else (case r_guild ev of
              None \<Rightarrow> ([], st)
            | Some g \<Rightarrow>
                (case loadedPlugins st g of
                   None \<Rightarrow> ([], st)
                 | Some plugins \<Rightarrow>
                     (case reactionPlugins clock runBody g (r_userId ev) plugins (cooldowns st, 0) of
                        (es, cds, tick) \<Rightarrow> (es, st\<lparr>cooldowns := cds\<rparr>)))))"

section \<open>HTTP rate limiter\<close>

text \<open>
  \<open>checkHttpRateLimits\<close> and the \<open>makeRequest\<close> closure of \<open>createSafeHttpClient\<close>. The
  network and the URL parser are parameters: \<open>axios method url\<close> is the outcome of the call
  (\<open>Inl\<close> a rejection with its message and status), \<open>hostname url\<close> is the host name that
  \<open>new URL(url)\<close> yields (\<open>None\<close> when the constructor throws). \<open>now\<close> is the clock when the
  request starts, \<open>finished\<close> the clock when it is logged. The result holds what the caller
  gets (\<open>Inl\<close> the thrown error), the new state, and the network calls that were made.
\<close>

record Response =
  resp_status :: int
  resp_size :: nat
  resp_data :: string

definition logsOf :: "Manager \<Rightarrow> string \<Rightarrow> string \<Rightarrow> HttpRequestLog list" where
  "logsOf st guild plugin =
     (case httpLogs st (guild @ '':'' @ plugin) of None \<Rightarrow> [] | Some logs \<Rightarrow> logs)"

definition checkHttpRateLimits :: "Manager \<Rightarrow> string \<Rightarrow> string \<Rightarrow> int \<Rightarrow> http_error + Manager" where
  "checkHttpRateLimits st guild plugin now =
     (let key = guild @ '':'' @ plugin;
          logs = logsOf st guild plugin;
          oneMinuteAgo = now - 60 * 1000;
          oneHourAgo = now - 60 * 60 * 1000;
          recentLogs = filter (\<lambda>log. timestamp log > oneHourAgo) logs;
          lastMinute = filter (\<lambda>log. timestamp log > oneMinuteAgo) recentLogs
      in if int (length lastMinute) \<ge> maxRequestsPerMinute (requestLimits st)
         then Inl (RateLimitPerMinute (maxRequestsPerMinute (requestLimits st)))
         else if int (length recentLogs) \<ge> maxRequestsPerHour (requestLimits st)
         then Inl (RateLimitPerHour (maxRequestsPerHour (requestLimits st)))
         else Inr (st\<lparr>httpLogs := (httpLogs st)(key \<mapsto> recentLogs)\<rparr>))"

definition logHttpRequest :: "Manager \<Rightarrow> HttpRequestLog \<Rightarrow> Manager" where
  "logHttpRequest st log =
     st\<lparr>httpLogs := (httpLogs st)(log_guildId log @ '':'' @ pluginId log \<mapsto>
           logsOf st (log_guildId log) (pluginId log) @ [log])\<rparr>"

definition failedRequest ::
  "Manager \<Rightarrow> string \<Rightarrow> string \<Rightarrow> int \<Rightarrow> int \<Rightarrow> string \<Rightarrow> string \<Rightarrow> http_error
   \<Rightarrow> (string \<times> string) list
   \<Rightarrow> (string \<times> http_error + Response) \<times> Manager \<times> (string \<times> string) list" where
  "failedRequest st guild item now finished method url err calls =
     (Inl (method, err),
      logHttpRequest st
        \<lparr>timestamp = finished, log_method = toUpperCase method, log_url = url,
         status = (case err of RequestFailed msg code \<Rightarrow> code | _ \<Rightarrow> 0),
         responseSize = 0, duration = finished - now, pluginId = item, log_guildId = guild,
         success = False, errorReason = Some err\<rparr>,
      calls)"

definition makeRequest ::
  "(string \<Rightarrow> string option) \<Rightarrow> (string \<Rightarrow> string \<Rightarrow> string \<times> int + Response)
   \<Rightarrow> Manager \<Rightarrow> string \<Rightarrow> string \<Rightarrow> int \<Rightarrow> int \<Rightarrow> string \<Rightarrow> string
   \<Rightarrow> (string \<times> http_error + Response) \<times> Manager \<times> (string \<times> string) list" where
  "makeRequest hostname axios st guild item now finished method url =
     (if \<not> prefix ''http'' url
      then failedRequest st guild item now finished method url InvalidUrl []
      else (case hostname url of
              None \<Rightarrow> failedRequest st guild item now finished method url MalformedUrl []
            | Some host \<Rightarrow>
                if host \<in> blockedDomains st
                then failedRequest st guild item now finished method url (DomainBlocked host) []
                else (case checkHttpRateLimits st guild item now of
                        Inl err \<Rightarrow> failedRequest st guild item now finished method url err []
                      | Inr st1 \<Rightarrow>
                          if toUpperCase method \<notin> set [''GET'', ''POST'', ''PUT'', ''DELETE'']
                          then failedRequest st1 guild item now finished method url
                                 (UnsupportedMethod method) []
                          else (case axios (toUpperCase method) url of
                                  Inl (msg, code) \<Rightarrow>
                                    failedRequest st1 guild item now finished method url
                                      (RequestFailed msg code) [(toUpperCase method, url)]
                                | Inr response \<Rightarrow>
                                    (Inr response,
                                     logHttpRequest st1
                                       \<lparr>timestamp = finished, log_method = toUpperCase method,
                                        log_url = url, status = resp_status response,
                                        responseSize = resp_size response,
                                        duration = finished - now, pluginId = item,
                                        log_guildId = guild, success = True,
                                        errorReason = None\<rparr>,
                                     [(toUpperCase method, url)])))))"

text \<open>The requests of a (guild, plugin) key that were logged during the 60 seconds before
  \<open>now\<close>.\<close>

definition lastMinuteLogs :: "Manager \<Rightarrow> string \<Rightarrow> string \<Rightarrow> int \<Rightarrow> HttpRequestLog list" where
  "lastMinuteLogs st guild plugin now =
     filter (\<lambda>log. now - 60000 < timestamp log) (logsOf st guild plugin)"

section \<open>Trigger facility\<close>

text \<open>
  \<open>emit.trigger(target, data)\<close> of a plugin's VM and the three handlers behind it. The
  result is the list of effects and the error thrown to the emitting code, if any. \<open>data\<close>
  holds the JSON text of each field of the emitted object.

  \<open>handleFunctionTrigger\<close> splices the function name, as it is, into the source of a regular
  expression, \<open>fun\s+NAME\s*\(([^)]*)\)\s*(?:->\s*\w+)?\s*{\<close>, and searches the plugin
  source with it. The outcome of \<open>new RegExp(...).exec(plugin.dslCode)\<close> is a
  \<open>regex_result\<close>: the constructor throws a syntax error, or nothing matches, or the
  leftmost match gives its parameter string and the index of its opening brace.
\<close>

datatype regex_result = SyntaxError string | NoMatch | Match string nat

text \<open>
  \<open>functionRegexExec\<close> is that search. For a name of word characters (letters, digits,
  underscore) and dots it is computed here: in the pattern a word character matches itself
  and a dot matches any character but a line terminator. \<open>\s+\<close> is greedy and gives
  white space back one character at a time (a dot at the head of the name can take it);
  after the name the pieces of the pattern exclude each other (white space, the
  parentheses, word characters, the brace), so the greedy scan is the only way the rest can
  match. For any other name, whose characters can be further operators of the pattern
  language, the outcome is left to the parameter \<open>other\<close>.
\<close>

definition is_word :: "char \<Rightarrow> bool" where
  "is_word c =
     (c \<in> set ''ABCDEFGHIJKLMNOPQRSTUVWXYZabcdefghijklmnopqrstuvwxyz0123456789_'')"

text \<open>A literal piece of the pattern and \<open>\w+\<close>: each gives the rest of the text after its
  match.\<close>

definition lit :: "string \<Rightarrow> string \<Rightarrow> string option" where
  "lit p s = (if prefix p s then Some (drop (length p) s) else None)"

definition some_word :: "string \<Rightarrow> string option" where
  "some_word s = (if takeWhile is_word s = [] then None else Some (dropWhile is_word s))"

text \<open>The name as a pattern, matched at the head of a text.\<close>

fun name_match :: "string \<Rightarrow> string \<Rightarrow> string option" where
  "name_match [] s = Some s"
| "name_match (a # n) [] = None"
| "name_match (a # n) (c # cs) =
     (if (if a = CHR ''.'' then c \<noteq> CHR 0x0A \<and> c \<noteq> CHR 0x0D else a = c)
      then name_match n cs else None)"

text \<open>The optional return type \<open>(?:->\s*\w+)?\<close> and the white space around it.\<close>

definition return_type :: "string \<Rightarrow> string option" where
  "return_type s =
     (case lit ''->'' (dropWhile is_ws s) of
        None \<Rightarrow> Some (dropWhile is_ws s)
      | Some r \<Rightarrow> map_option (dropWhile is_ws) (some_word (dropWhile is_ws r)))"

text \<open>The pattern after the name, \<open>\s*\(([^)]*)\)\s*(?:->\s*\w+)?\s*{\<close>: the parameter
  string and the text after the opening brace.\<close>

definition declaration_tail :: "string \<Rightarrow> (string \<times> string) option" where
  "declaration_tail s3 =
     Option.bind (lit ''('' (dropWhile is_ws s3)) (\<lambda>s4.
     Option.bind (lit '')'' (dropWhile (\<lambda>c. c \<noteq> CHR '')'') s4)) (\<lambda>s5.
     Option.bind (return_type s5) (\<lambda>s6.
     Option.bind (lit ''{'' s6) (\<lambda>s7.
       Some (takeWhile (\<lambda>c. c \<noteq> CHR '')'') s4, s7)))))"

text \<open>\<open>\s+\<close> with \<open>k\<close> characters of white space, then \<open>k - 1\<close>, down to one.\<close>

fun try_ws :: "string \<Rightarrow> string \<Rightarrow> nat \<Rightarrow> (string \<times> string) option" where
  "try_ws n s1 0 = None"
| "try_ws n s1 (Suc k) =
     (case Option.bind (name_match n (drop (Suc k) s1)) declaration_tail of
        Some r \<Rightarrow> Some r
      | None \<Rightarrow> try_ws n s1 k)"

text \<open>A match of the pattern at the start of \<open>s\<close>: the parameter string and the offset of
  the opening brace.\<close>

definition match_at :: "string \<Rightarrow> string \<Rightarrow> (string \<times> nat) option" where
  "match_at n s =
     Option.bind (lit ''fun'' s) (\<lambda>s1.
     map_option (\<lambda>(paramString, s7). (paramString, length s - length s7 - 1))
       (try_ws n s1 (length (takeWhile is_ws s1))))"

fun find_from :: "string \<Rightarrow> string \<Rightarrow> nat \<Rightarrow> (string \<times> nat) option" where
  "find_from n [] i = None"
| "find_from n (c # cs) i =
     (case match_at n (c # cs) of
        Some (paramString, k) \<Rightarrow> Some (paramString, i + k)
      | None \<Rightarrow> find_from n cs (i + 1))"

definition functionRegexExec ::
  "(string \<Rightarrow> string \<Rightarrow> regex_result) \<Rightarrow> string \<Rightarrow> string \<Rightarrow> regex_result" where
  "functionRegexExec other n source =
     (if list_all (\<lambda>c. is_word c \<or> c = CHR ''.'') n
      then (case find_from n source 0 of
              None \<Rightarrow> NoMatch
            | Some (paramString, startBrace) \<Rightarrow> Match paramString startBrace)
      else other n source)"

definition valid_name :: "string \<Rightarrow> bool" where
  "valid_name n = (n \<noteq> [] \<and> list_all (\<lambda>c. c \<noteq> CHR 0x0A \<and> c \<noteq> CHR 0x0D) n)"

text \<open>The match of \<open>/^(event|fun|command):(.+)$/\<close>.\<close>

definition parseTarget :: "string \<Rightarrow> (string \<times> string) option" where
  "parseTarget target =
     (case filter (\<lambda>kind. prefix (kind @ '':'') target) [''event'', ''fun'', ''command''] of
        [] \<Rightarrow> None
      | kind # ks \<Rightarrow>
          (let n = drop (length kind + 1) target
           in if valid_name n then Some (kind, n) else None))"

definition handleCustomEventTrigger :: "Manager \<Rightarrow> string \<Rightarrow> string \<Rightarrow> string \<Rightarrow> effect list" where
  "handleCustomEventTrigger st guild item eventName =
     (case loadedPlugins st guild of
        None \<Rightarrow> []
      | Some plugins \<Rightarrow>
          (case map_of plugins item of
             None \<Rightarrow> []
           | Some plugin \<Rightarrow>
               (case map_of (customEvents plugin) eventName of
                  None \<Rightarrow> []
                | Some handlers \<Rightarrow> map (\<lambda>handler. ExecuteCode item handler EventContext) handlers)
               @ concat (map (\<lambda>handler.
                   if logic_type handler = on_trigger \<and> pattern handler = eventName
                   then [ExecuteCode item (action handler) EventContext] else [])
                   (logicHandlers plugin))))"

definition paramNamesOf :: "string \<Rightarrow> string list" where
  "paramNamesOf paramString =
     (if trim paramString \<noteq> []
      then map (\<lambda>param. (case split_on CHR '':'' (trim param) of
                            [] \<Rightarrow> [] | p # ps \<Rightarrow> trim p))
               (split_on CHR '','' paramString)
      else [])"

definition handleFunctionTrigger ::
  "(string \<Rightarrow> string \<Rightarrow> regex_result) \<Rightarrow> Manager \<Rightarrow> string \<Rightarrow> string \<Rightarrow> string
   \<Rightarrow> (string \<rightharpoonup> string) option \<Rightarrow> effect list \<times> string option" where
  "handleFunctionTrigger regexExec st guild item functionName data =
     (case loadedPlugins st guild of
        None \<Rightarrow> ([], None)
      | Some plugins \<Rightarrow>
          (case map_of plugins item of
             None \<Rightarrow> ([], None)
           | Some plugin \<Rightarrow>
               (case regexExec functionName (lp_dslCode plugin) of
                  SyntaxError msg \<Rightarrow> ([], Some msg)
                | NoMatch \<Rightarrow>
                    ([], Some (''Function '' @ [CHR 0x27] @ functionName @ [CHR 0x27] @ '' not found''))
                | Match paramString startBrace \<Rightarrow>
                    (let paramNames = paramNamesOf paramString;
                         functionBody = content (extractBlockContent (lp_dslCode plugin) startBrace);
                         functionParams = (\<lambda>paramName.
                            if paramName \<in> set paramNames
                            then (case data of None \<Rightarrow> None | Some d \<Rightarrow> d paramName)
                            else None);
                         codeToExecute = foldl (\<lambda>code paramName.
                            (case functionParams paramName of
                               None \<Rightarrow> code
                             | Some v \<Rightarrow> ''const '' @ paramName @ '' = '' @ v @ [CHR 0x0A] @ code))
                            functionBody paramNames
                     in ([ExecuteCode item codeToExecute (FunctionContext functionParams)], None)))))"

definition handleCommandTrigger :: "Manager \<Rightarrow> string \<Rightarrow> string \<Rightarrow> string \<Rightarrow> effect list \<times> string option"
  where
  "handleCommandTrigger st guild item commandName =
     (case loadedPlugins st guild of
        None \<Rightarrow> ([], None)
      | Some plugins \<Rightarrow>
          (case map_of plugins item of
             None \<Rightarrow> ([], None)
           | Some plugin \<Rightarrow>
               (case map_of (commands plugin) commandName of
                  None \<Rightarrow> ([], Some (''Command '' @ [CHR 0x27] @ commandName @ [CHR 0x27] @ '' not found''))
                | Some handler \<Rightarrow>
                    ([ExecuteCode item (onCommand handler) CommandTriggerContext], None))))"

definition emit_trigger ::
  "(string \<Rightarrow> string \<Rightarrow> regex_result) \<Rightarrow> Manager \<Rightarrow> string \<Rightarrow> string \<Rightarrow> string
   \<Rightarrow> (string \<rightharpoonup> string) option \<Rightarrow> effect list \<times> string option" where
  "emit_trigger regexExec st guild item target data =
     (case parseTarget target of
        None \<Rightarrow> ([], Some ''Invalid trigger format. Use: event:name, fun:name, or command:name'')
      | Some (kind, n) \<Rightarrow>
          if kind = ''event'' then (handleCustomEventTrigger st guild item n, None)
          else if kind = ''fun'' then handleFunctionTrigger regexExec st guild item n data
          else handleCommandTrigger st guild item n)"

section \<open>Install, enable, disable, uninstall\<close>

text \<open>
  The operations that change the two plugin tables. What they get from outside the Manager
  and from the regular-expression parsers is an environment: the marketplace record of an
  item, the download of its source (\<open>None\<close> when it throws), \<open>parseManifest\<close> (\<open>None\<close> when
  it throws), \<open>parseSettings\<close>, \<open>extractImports\<close> and the four parsers that
  \<open>loadInstalledPlugin\<close> runs on the new Loaded Plugin. An operation returns its
  \<open>{success, message}\<close> result and the new state.
\<close>

record MarketplaceItem =
  item_status :: string
  fileUrl :: string

record Env =
  findMarketplaceItem :: "string \<Rightarrow> MarketplaceItem option"
  downloadPluginCode :: "string \<Rightarrow> string option"
  parseManifest :: "string \<Rightarrow> PluginManifest option"
  parseSettings :: "string \<Rightarrow> PluginSettings"
  extractImports :: "string \<Rightarrow> string list"
  parseCommands :: "LoadedPlugin \<Rightarrow> LoadedPlugin"
  parseButtonHandlers :: "LoadedPlugin \<Rightarrow> LoadedPlugin"
  parseLogicHandlers :: "LoadedPlugin \<Rightarrow> LoadedPlugin"
  parseCustomEvents :: "LoadedPlugin \<Rightarrow> LoadedPlugin"

definition installedOf :: "Manager \<Rightarrow> string \<Rightarrow> InstalledPlugin list" where
  "installedOf st guild = (case installedPlugins st guild of None \<Rightarrow> [] | Some ps \<Rightarrow> ps)"

definition loadedOf :: "Manager \<Rightarrow> string \<Rightarrow> (string \<times> LoadedPlugin) list" where
  "loadedOf st guild = (case loadedPlugins st guild of None \<Rightarrow> [] | Some ps \<Rightarrow> ps)"

definition loadInstalledPlugin :: "Env \<Rightarrow> Manager \<Rightarrow> string \<Rightarrow> InstalledPlugin \<Rightarrow> Manager" where
  "loadInstalledPlugin env st guild installed =
     (let plugin0 = \<lparr>lp_itemId = itemId installed, lp_manifest = manifest installed,
                     lp_dslCode = dslCode installed, lp_settings = settings installed,
                     lp_imports = ip_imports installed, commands = [], buttonHandlers = [],
                     onReaction = [], customEvents = [], customFunctions = [],
                     logicHandlers = []\<rparr>;
          plugin = parseCustomEvents env (parseLogicHandlers env
                     (parseButtonHandlers env (parseCommands env plugin0)))
      in st\<lparr>loadedPlugins := (loadedPlugins st)(guild \<mapsto>
              AList.update (itemId installed) plugin (loadedOf st guild))\<rparr>)"

text \<open>\<open>this.loadedPlugins.get(guildId)?.delete(itemId)\<close>\<close>

definition unloadPlugin :: "Manager \<Rightarrow> string \<Rightarrow> string \<Rightarrow> Manager" where
  "unloadPlugin st guild item =
     (case loadedPlugins st guild of
        None \<Rightarrow> st
      | Some ps \<Rightarrow> st\<lparr>loadedPlugins := (loadedPlugins st)(guild \<mapsto> AList.delete item ps)\<rparr>)"

definition installPluginFromMarketplace ::
  "Env \<Rightarrow> Manager \<Rightarrow> int \<Rightarrow> string \<Rightarrow> string \<Rightarrow> (bool \<times> string) \<times> Manager" where
  "installPluginFromMarketplace env st now guild item =
     (case findMarketplaceItem env item of
        None \<Rightarrow> ((False, ''Plugin not found''), st)
      | Some marketplaceItem \<Rightarrow>
          if item_status marketplaceItem \<noteq> ''approved'' then ((False, ''Not approved''), st)
          else (case downloadPluginCode env (fileUrl marketplaceItem) of
                  None \<Rightarrow> ((False, ''Failed: download''), st)
                | Some code \<Rightarrow>
                    (case parseManifest env code of
                       None \<Rightarrow> ((False, ''Failed: Error: No manifest''), st)
                     | Some mf \<Rightarrow>
                         (let imps = extractImports env code;
                              validation = validate code imps (scopes mf)
                          in if \<not> valid validation
                             then ((False, ''Scope validation failed: ''
                                            @ join ''; '' (errors validation)), st)
                             else if list_ex (\<lambda>p. itemId p = item) (installedOf st guild)
                             then ((False, ''Already installed''), st)
                             else (let installedPlugin =
                                         \<lparr>itemId = item, guildId = guild, manifest = mf,
                                          dslCode = code, settings = parseSettings env code,
                                          installedAt = now, enabled = True, ip_imports = imps\<rparr>;
                                       st1 = st\<lparr>installedPlugins := (installedPlugins st)(guild \<mapsto>
                                               installedOf st guild @ [installedPlugin])\<rparr>
                                   in ((True, ''Installed '' @ name mf),
                                       loadInstalledPlugin env st1 guild installedPlugin))))))"

text \<open>\<open>find\<close> returns the first record of the item; the assignment to its \<open>enabled\<close> field
  changes that record in the list.\<close>

fun set_enabled :: "string \<Rightarrow> bool \<Rightarrow> InstalledPlugin list \<Rightarrow> InstalledPlugin list" where
  "set_enabled item b [] = []"
| "set_enabled item b (p # ps) =
     (if itemId p = item then p\<lparr>enabled := b\<rparr> # ps else p # set_enabled item b ps)"

definition togglePlugin ::
  "Env \<Rightarrow> Manager \<Rightarrow> string \<Rightarrow> string \<Rightarrow> bool \<Rightarrow> (bool \<times> string) \<times> Manager" where
  "togglePlugin env st guild item b =
     (case find (\<lambda>p. itemId p = item) (installedOf st guild) of
        None \<Rightarrow> ((False, ''Not found''), st)
      | Some plugin \<Rightarrow>
          (let st1 = st\<lparr>installedPlugins := (installedPlugins st)(guild \<mapsto>
                        set_enabled item b (installedOf st guild))\<rparr>
           in if b then ((True, ''Enabled''), loadInstalledPlugin env st1 guild (plugin\<lparr>enabled := b\<rparr>))
              else ((True, ''Disabled''), unloadPlugin st1 guild item)))"

text \<open>\<open>findIndex\<close> and \<open>splice(idx, 1)\<close>: the first record of the item is removed.\<close>

fun remove_first :: "string \<Rightarrow> InstalledPlugin list \<Rightarrow> InstalledPlugin list" where
  "remove_first item [] = []"
| "remove_first item (p # ps) = (if itemId p = item then ps else p # remove_first item ps)"

definition uninstallPlugin :: "Manager \<Rightarrow> string \<Rightarrow> string \<Rightarrow> (bool \<times> string) \<times> Manager" where
  "uninstallPlugin st guild item =
     (if \<not> list_ex (\<lambda>p. itemId p = item) (installedOf st guild)
      then ((False, ''Not found''), st)
      else (let st1 = st\<lparr>installedPlugins := (installedPlugins st)(guild \<mapsto>
                          remove_first item (installedOf st guild))\<rparr>
            in ((True, ''Uninstalled''), unloadPlugin st1 guild item)))"

text \<open>The states of the Manager: the state the constructor builds, and every state that an
  install, a toggle or an uninstall leads to.\<close>

inductive reachable :: "Env \<Rightarrow> Manager \<Rightarrow> bool" for env :: Env where
  start: "reachable env newManager"
| install: "reachable env st \<Longrightarrow>
            reachable env (snd (installPluginFromMarketplace env st now guild item))"
| toggle: "reachable env st \<Longrightarrow> reachable env (snd (togglePlugin env st guild item b))"
| uninstall: "reachable env st \<Longrightarrow> reachable env (snd (uninstallPlugin st guild item))"

text \<open>The two sides of the invariant of the Loaded Plugin table.\<close>

definition is_loaded :: "Manager \<Rightarrow> string \<Rightarrow> string \<Rightarrow> bool" where
  "is_loaded st guild item = (map_of (loadedOf st guild) item \<noteq> None)"

definition installed_enabled :: "Manager \<Rightarrow> string \<Rightarrow> string \<Rightarrow> bool" where
  "installed_enabled st guild item =
     list_ex (\<lambda>p. itemId p = item \<and> enabled p) (installedOf st guild)"

text \<open>The invariant that the three operations keep: in every guild no item is installed
  twice, and the Loaded Plugin table holds exactly the enabled items.\<close>

definition manager_inv :: "Manager \<Rightarrow> bool" where
  "manager_inv st = (\<forall>guild. distinct (map itemId (installedOf st guild)) \<and>
      (\<forall>item. is_loaded st guild item \<longleftrightarrow> installed_enabled st guild item))"

section \<open>Example values\<close>

text \<open>A marketplace with one approved plugin whose source sends a message and whose
  manifest declares the scope for it.\<close>

definition exampleManifest :: PluginManifest where
  "exampleManifest = \<lparr>name = ''Greeter'', version = ''1.0.0'', author = ''a'',
     manifest_description = [], tags = [], scopes = [''messages.send''], price = 0,
     homepage = [], iconUrl = [], license = [], faq = []\<rparr>"

definition exampleEnv :: Env where
  "exampleEnv = \<lparr>findMarketplaceItem = (\<lambda>item. Some \<lparr>item_status = ''approved'', fileUrl = ''u''\<rparr>),
     downloadPluginCode = (\<lambda>url. Some ''guilds.send(c, m)''),
     parseManifest = (\<lambda>code. Some exampleManifest),
     parseSettings = (\<lambda>code. []),
     extractImports = (\<lambda>code. []),
     parseCommands = (\<lambda>plugin. plugin),
     parseButtonHandlers = (\<lambda>plugin. plugin),
     parseLogicHandlers = (\<lambda>plugin. plugin),
     parseCustomEvents = (\<lambda>plugin. plugin)\<rparr>"

text \<open>
  A loaded plugin as the parsers build it from a source in the style of the repository's
  README: a command \<open>greet\<close> with one required string parameter and \<open>cooldown 5s\<close>, a
  button handler \<open>my_button\<close> with \<open>cooldown 10s\<close>, and two reaction handlers with
  \<open>cooldown 5s\<close> each. \<open>parseCommands\<close> and \<open>parseButtonHandlers\<close> fill in the cooldown
  seconds and the main body only, never a denial body or a permission list.
\<close>

definition greetHandler :: CommandHandler where
  "greetHandler =
     \<lparr>description = ''Greet a user'', usage = ''?greet <username>'',
      parameters = [(''username'', \<lparr>ptype = PString, param_description = ''User to greet'',
                                    required = True\<rparr>)],
      cooldown = Some 5, userPermissions = None, botPermissions = None,
      onCommand = ''guilds.send(message.channel_id, parameters.username)'',
      onCooldown = None, onPermissionDeniedUser = None, onPermissionDeniedBot = None\<rparr>"

definition examplePlugin :: LoadedPlugin where
  "examplePlugin =
     \<lparr>lp_itemId = ''p'', lp_manifest = exampleManifest,
      lp_dslCode = ''logic { fun calculate_level(xp: int) -> int { return xp / 100 } }'',
      lp_settings = [], lp_imports = [],
      commands = [(''greet'', greetHandler)],
      buttonHandlers = [(''my_button'', \<lparr>btn_cooldown = Some 10,
                           execute = ''guilds.send(interaction.channel_id, 1)'',
                           btn_onCooldown = None\<rparr>)],
      onReaction = [\<lparr>rh_cooldown = Some 5, rh_onCooldown = ''first_denied()'',
                     rh_execute = ''first()''\<rparr>,
                    \<lparr>rh_cooldown = Some 5, rh_onCooldown = ''second_denied()'',
                     rh_execute = ''second()''\<rparr>],
      customEvents = [], customFunctions = [], logicHandlers = []\<rparr>"

definition exampleManager :: Manager where
  "exampleManager = newManager\<lparr>loadedPlugins := [''g'' \<mapsto> [(''p'', examplePlugin)]]\<rparr>"

definition exampleMessage :: "string \<Rightarrow> Message" where
  "exampleMessage line =
     \<lparr>m_guild = Some ''g'', m_content = line, m_authorId = ''u'', m_channelId = ''c'',
      m_id = ''1''\<rparr>"

text \<open>A Manager with a per-minute limit of 2, two requests of plugin \<open>p\<close> logged at 1 s and
  2 s, and one blocked domain; and a network that answers every call.\<close>

definition exampleLog :: "int \<Rightarrow> HttpRequestLog" where
  "exampleLog t =
     \<lparr>timestamp = t, log_method = ''GET'', log_url = ''http://api.example/x'', status = 200,
      responseSize = 2, duration = 5, pluginId = ''p'', log_guildId = ''g'', success = True,
      errorReason = None\<rparr>"

definition exampleLimited :: Manager where
  "exampleLimited =
     newManager\<lparr>httpLogs := [''g:p'' \<mapsto> [exampleLog 1000, exampleLog 2000]],
                blockedDomains := {''evil.example''},
                requestLimits := \<lparr>maxRequestsPerMinute = 2, maxRequestsPerHour = 200,
                                   maxDataPerRequest = 1024, timeoutMs = 10000\<rparr>\<rparr>"

definition exampleAxios :: "string \<Rightarrow> string \<Rightarrow> string \<times> int + Response" where
  "exampleAxios method url = Inr \<lparr>resp_status = 200, resp_size = 2, resp_data = ''{}''\<rparr>"

text \<open>A reaction added by user \<open>u\<close> in guild \<open>g\<close>.\<close>

definition exampleReaction :: ReactionEvent where
  "exampleReaction =
     \<lparr>r_userBot = False, r_userId = ''u'', r_guild = Some ''g'', r_channelId = ''c'',
      r_messageId = ''1'', r_emoji = ''+1''\<rparr>"

text \<open>A plugin whose command \<open>proto\<close> declares one required string parameter, of the
  name \<open>__proto__\<close>.\<close>

definition protoHandler :: CommandHandler where
  "protoHandler =
     \<lparr>description = ''Show a prototype'', usage = ''?proto <name>'',
      parameters = [(''__proto__'', \<lparr>ptype = PString, param_description = ''Name'',
                                     required = True\<rparr>)],
      cooldown = None, userPermissions = None, botPermissions = None,
      onCommand = ''guilds.send(message.channel_id, 1)'',
      onCooldown = None, onPermissionDeniedUser = None, onPermissionDeniedBot = None\<rparr>"

definition protoPlugin :: LoadedPlugin where
  "protoPlugin =
     \<lparr>lp_itemId = ''r'', lp_manifest = exampleManifest, lp_dslCode = ''guilds.send(c, m)'',
      lp_settings = [], lp_imports = [], commands = [(''proto'', protoHandler)],
      buttonHandlers = [], onReaction = [], customEvents = [], customFunctions = [],
      logicHandlers = []\<rparr>"

definition protoManager :: Manager where
  "protoManager = newManager\<lparr>loadedPlugins := [''g'' \<mapsto> [(''r'', protoPlugin)]]\<rparr>"

section \<open>Properties of the Block Extractor\<close>

lemma find_open_none:
  "\<forall>j. i \<le> j \<and> j < length t \<longrightarrow> t ! j \<noteq> CHR ''{'' \<Longrightarrow> find_open t i = None"
proof (induction t i rule: find_open.induct)
  case (1 t i)
  show ?case
  proof (cases "i < length t")
    case True
    with "1.prems" have ne: "t ! i \<noteq> CHR ''{''" by simp
    from "1.prems" have "\<forall>j. i + 1 \<le> j \<and> j < length t \<longrightarrow> t ! j \<noteq> CHR ''{''" by simp
    with "1.IH" True ne have "find_open t (i + 1) = None" by simp
    with True ne show ?thesis by (subst find_open.simps) simp
  next
    case False
    then show ?thesis by (subst find_open.simps) simp
  qed
qed

lemma find_open_skip:
  "CHR ''{'' \<notin> set mid \<Longrightarrow>
   find_open (pre @ mid @ CHR ''{'' # rest) (length pre) = Some (length pre + length mid + 1)"
proof (induction mid arbitrary: pre)
  case Nil
  show ?case by (subst find_open.simps) simp
next
  case (Cons c mid)
  from Cons.prems have c: "c \<noteq> CHR ''{''" and m: "CHR ''{'' \<notin> set mid" by auto
  from Cons.IH [OF m, of "pre @ [c]"]
  have "find_open (pre @ c # mid @ CHR ''{'' # rest) (length pre + 1)
        = Some (length pre + length mid + 2)" by simp
  with c show ?case by (subst find_open.simps) simp
qed

lemma depth_of_Cons:
  "depth_of (c # s) = (if c = CHR ''{'' then 1 else if c = CHR ''}'' then - 1 else 0) + depth_of s"
  by (simp add: depth_of_def)

lemma never_closed_iff: "never_closed s \<longleftrightarrow> (\<forall>n\<le>length s. 0 \<le> depth_of (take n s))"
  by (auto simp: never_closed_def list_all_iff less_Suc_eq_le)

lemma scan_close_closed:
  "1 \<le> d \<Longrightarrow> \<forall>n\<le>length body. 1 \<le> d + depth_of (take n body) \<Longrightarrow> d + depth_of body = 1 \<Longrightarrow>
   scan_close (pre @ body @ CHR ''}'' # post) (length pre) d = length pre + length body"
proof (induction body arbitrary: pre d)
  case Nil
  then have "d - 1 = 0" by (simp add: depth_of_def)
  then show ?case by (subst scan_close.simps) simp
next
  case (Cons c body)
  let ?k = "if c = CHR ''{'' then 1 else if c = CHR ''}'' then - 1 else (0::int)"
  have step: "\<forall>n\<le>length body. 1 \<le> (d + ?k) + depth_of (take n body)"
  proof (intro allI impI)
    fix n assume "n \<le> length body"
    then have "Suc n \<le> length (c # body)" by simp
    with Cons.prems(2) have "1 \<le> d + depth_of (take (Suc n) (c # body))" by blast
    then show "1 \<le> (d + ?k) + depth_of (take n body)" by (simp add: depth_of_Cons)
  qed
  from step have d1: "1 \<le> d + ?k" by (auto dest: spec [of _ 0] simp: depth_of_def)
  from Cons.prems(3) have fin: "(d + ?k) + depth_of body = 1" by (simp add: depth_of_Cons)
  from Cons.IH [OF d1 step fin, of "pre @ [c]"]
  have IH: "scan_close (pre @ c # body @ CHR ''}'' # post) (length pre + 1) (d + ?k)
            = length pre + length body + 1" by simp
  show ?case
  proof (cases "c = CHR ''{''")
    case True
    with IH show ?thesis by (subst scan_close.simps) simp
  next
    case False
    show ?thesis
    proof (cases "c = CHR ''}''")
      case True
      with d1 have "d - 1 \<noteq> 0" by simp
      with True IH show ?thesis by (subst scan_close.simps) simp
    next
      case False
      with \<open>c \<noteq> CHR ''{''\<close> IH show ?thesis by (subst scan_close.simps) simp
    qed
  qed
qed

lemma scan_close_open:
  "1 \<le> d \<Longrightarrow> \<forall>n\<le>length rest. 1 \<le> d + depth_of (take n rest) \<Longrightarrow>
   scan_close (pre @ rest) (length pre) d = length pre + length rest"
proof (induction rest arbitrary: pre d)
  case Nil
  show ?case by (subst scan_close.simps) simp
next
  case (Cons c rest)
  let ?k = "if c = CHR ''{'' then 1 else if c = CHR ''}'' then - 1 else (0::int)"
  have step: "\<forall>n\<le>length rest. 1 \<le> (d + ?k) + depth_of (take n rest)"
  proof (intro allI impI)
    fix n assume "n \<le> length rest"
    then have "Suc n \<le> length (c # rest)" by simp
    with Cons.prems(2) have "1 \<le> d + depth_of (take (Suc n) (c # rest))" by blast
    then show "1 \<le> (d + ?k) + depth_of (take n rest)" by (simp add: depth_of_Cons)
  qed
  from step have d1: "1 \<le> d + ?k" by (auto dest: spec [of _ 0] simp: depth_of_def)
  from Cons.IH [OF d1 step, of "pre @ [c]"]
  have IH: "scan_close (pre @ c # rest) (length pre + 1) (d + ?k)
            = length pre + length rest + 1" by simp
  show ?case
  proof (cases "c = CHR ''{''")
    case True
    with IH show ?thesis by (subst scan_close.simps) simp
  next
    case False
    show ?thesis
    proof (cases "c = CHR ''}''")
      case True
      with d1 have "d - 1 \<noteq> 0" by simp
      with True IH show ?thesis by (subst scan_close.simps) simp
    next
      case False
      with \<open>c \<noteq> CHR ''{''\<close> IH show ?thesis by (subst scan_close.simps) simp
    qed
  qed
qed

lemma substring_mid: "substring (xs @ ys @ zs) (length xs) (length xs + length ys) = ys"
  by (simp add: substring_def Let_def)

text \<open>
  Claim C5, as the code has it. When no opening brace occurs at or after the start index,
  the Block Extractor returns the empty content and the start index unchanged. When the first
  opening brace at or after the start index is followed by a body whose nesting closes
  (\<open>closed_body\<close>) and then by a closing brace, which is therefore its matching brace, the
  extractor returns that body, nested blocks included, with the white space at its two ends
  trimmed, and the index just past the closing brace.
\<close>

theorem extractBlockContent_balanced:
  "((\<forall>j. startIndex \<le> j \<and> j < length t \<longrightarrow> t ! j \<noteq> CHR ''{'') \<longrightarrow>
      extractBlockContent t startIndex = \<lparr>content = [], endIndex = startIndex\<rparr>) \<and>
   (t = pre @ CHR ''{'' # body @ CHR ''}'' # post \<and> startIndex \<le> length pre \<and>
      CHR ''{'' \<notin> set (drop startIndex pre) \<and> closed_body body \<longrightarrow>
      extractBlockContent t startIndex =
        \<lparr>content = trim body, endIndex = length pre + length body + 2\<rparr>)"
proof (intro conjI impI)
  assume "\<forall>j. startIndex \<le> j \<and> j < length t \<longrightarrow> t ! j \<noteq> CHR ''{''"
  then have "find_open t startIndex = None" by (rule find_open_none)
  then show "extractBlockContent t startIndex = \<lparr>content = [], endIndex = startIndex\<rparr>"
    by (simp add: extractBlockContent_def)
next
  assume a: "t = pre @ CHR ''{'' # body @ CHR ''}'' # post \<and> startIndex \<le> length pre \<and>
      CHR ''{'' \<notin> set (drop startIndex pre) \<and> closed_body body"
  define p0 where "p0 = take startIndex pre"
  define mid where "mid = drop startIndex pre"
  from a have t: "t = p0 @ mid @ CHR ''{'' # body @ CHR ''}'' # post"
    and l0: "length p0 = startIndex" and lp: "length pre = length p0 + length mid"
    and m: "CHR ''{'' \<notin> set mid"
    by (simp_all add: p0_def mid_def)
  from a have nn: "\<forall>n\<le>length body. 1 \<le> 1 + depth_of (take n body)" and z: "1 + depth_of body = 1"
    by (simp_all add: closed_body_def never_closed_iff)
  have fo: "find_open t startIndex = Some (length pre + 1)"
    using find_open_skip [OF m, of p0 "body @ CHR ''}'' # post"] t l0 lp by simp
  have "scan_close ((pre @ [CHR ''{'']) @ body @ CHR ''}'' # post) (length (pre @ [CHR ''{''])) 1
        = length (pre @ [CHR ''{'']) + length body"
    using nn z by (intro scan_close_closed) simp_all
  with a have sc: "scan_close t (Suc (length pre)) 1 = Suc (length pre + length body)" by simp
  have "substring ((pre @ [CHR ''{'']) @ body @ (CHR ''}'' # post)) (length (pre @ [CHR ''{'']))
          (length (pre @ [CHR ''{'']) + length body) = body"
    by (rule substring_mid)
  with a have sb: "substring t (Suc (length pre)) (Suc (length pre + length body)) = body" by simp
  show "extractBlockContent t startIndex =
        \<lparr>content = trim body, endIndex = length pre + length body + 2\<rparr>"
    by (simp add: extractBlockContent_def fo sc sb Let_def)
qed

theorem extractBlockContent_balanced_witness:
  "extractBlockContent ''ab'' 1 = \<lparr>content = [], endIndex = 1\<rparr> \<and>
   extractBlockContent ''x { a{b}c } y'' 1 = \<lparr>content = ''a{b}c'', endIndex = 11\<rparr>"
proof
  have "\<forall>j. 1 \<le> j \<and> j < length ''ab'' \<longrightarrow> ''ab'' ! j \<noteq> CHR ''{''"
  proof (intro allI impI)
    fix j :: nat
    assume "1 \<le> j \<and> j < length ''ab''"
    then have "j = 1" by simp
    then show "''ab'' ! j \<noteq> CHR ''{''" by simp
  qed
  then show "extractBlockContent ''ab'' 1 = \<lparr>content = [], endIndex = 1\<rparr>"
    using extractBlockContent_balanced [of 1 "''ab''" "[]" "[]" "[]"] by blast
  have "closed_body '' a{b}c ''" by code_simp
  then show "extractBlockContent ''x { a{b}c } y'' 1 = \<lparr>content = ''a{b}c'', endIndex = 11\<rparr>"
    using extractBlockContent_balanced [of 1 "''x { a{b}c } y''" "''x ''" "'' a{b}c ''" "'' y''"]
    by (simp add: trim_def is_ws_def)
qed

text \<open>
  Claim C5 as it is written asks for the substring strictly between the two braces. On
  \<open>{ a }\<close> the braces are balanced and that substring is \<open>a\<close> between two spaces, while the
  extractor returns \<open>a\<close> alone.
\<close>

theorem extractBlockContent_untrimmed_counterexample:
  "closed_body '' a '' \<and>
   content (extractBlockContent (''{'' @ '' a '' @ ''}'') 0) \<noteq> '' a ''"
proof
  show "closed_body '' a ''" by code_simp
  show "content (extractBlockContent (''{'' @ '' a '' @ ''}'') 0) \<noteq> '' a ''"
    by (simp add: extractBlockContent_def find_open.simps scan_close.simps trim_def
        substring_def is_ws_def)
qed

text \<open>
  Claim C10. When the first opening brace at or after the start index is never closed (no
  prefix of the text after it brings the nesting back to the level before the brace), the
  Block Extractor signals nothing: its content is the rest of the text after that brace,
  trimmed, and its end index is the length of the text plus one.
\<close>

theorem extractBlockContent_unclosed:
  "t = pre @ CHR ''{'' # rest \<Longrightarrow> startIndex \<le> length pre \<Longrightarrow>
   CHR ''{'' \<notin> set (drop startIndex pre) \<Longrightarrow> never_closed rest \<Longrightarrow>
   extractBlockContent t startIndex = \<lparr>content = trim rest, endIndex = length t + 1\<rparr>"
proof -
  assume t0: "t = pre @ CHR ''{'' # rest" and s: "startIndex \<le> length pre"
    and no: "CHR ''{'' \<notin> set (drop startIndex pre)" and nc: "never_closed rest"
  define p0 where "p0 = take startIndex pre"
  define mid where "mid = drop startIndex pre"
  from t0 s no have t: "t = p0 @ mid @ CHR ''{'' # rest"
    and l0: "length p0 = startIndex" and lp: "length pre = length p0 + length mid"
    and m: "CHR ''{'' \<notin> set mid"
    by (simp_all add: p0_def mid_def)
  have fo: "find_open t startIndex = Some (length pre + 1)"
    using find_open_skip [OF m, of p0 rest] t l0 lp by simp
  from nc have nn: "\<forall>n\<le>length rest. 1 \<le> 1 + depth_of (take n rest)"
    by (simp add: never_closed_iff)
  have "scan_close ((pre @ [CHR ''{'']) @ rest) (length (pre @ [CHR ''{''])) 1
        = length (pre @ [CHR ''{'']) + length rest"
    using nn by (intro scan_close_open) simp_all
  with t0 have sc: "scan_close t (Suc (length pre)) 1 = length t" by simp
  from t0 have sb: "substring t (Suc (length pre)) (length t) = rest"
    by (simp add: substring_def Let_def)
  show ?thesis by (simp add: extractBlockContent_def fo sc sb Let_def)
qed

theorem extractBlockContent_unclosed_witness:
  "extractBlockContent ''x { a{b}c  '' 0 = \<lparr>content = ''a{b}c'', endIndex = 12\<rparr>"
proof -
  have "never_closed '' a{b}c  ''" by code_simp
  then show ?thesis
    using extractBlockContent_unclosed [of "''x { a{b}c  ''" "''x ''" "'' a{b}c  ''" 0]
    by (simp add: trim_def is_ws_def)
qed


section \<open>The Loaded Plugin invariant\<close>

lemma installed_enabled_iff:
  "installed_enabled st guild item \<longleftrightarrow> (\<exists>p\<in>set (installedOf st guild). itemId p = item \<and> enabled p)"
  by (simp add: installed_enabled_def list_ex_iff)

lemma map_itemId_set_enabled [simp]: "map itemId (set_enabled item b ps) = map itemId ps"
  by (induction ps) auto

lemma set_enabled_ex:
  "distinct (map itemId ps) \<Longrightarrow>
   (\<exists>p\<in>set (set_enabled item b ps). itemId p = i \<and> enabled p) \<longleftrightarrow>
   (if i = item then item \<in> itemId ` set ps \<and> b else (\<exists>p\<in>set ps. itemId p = i \<and> enabled p))"
  by (induction ps) (auto simp: image_iff)

lemma set_remove_first: "set (remove_first item ps) \<subseteq> set ps"
  by (induction ps) auto

lemma distinct_remove_first: "distinct (map itemId ps) \<Longrightarrow> distinct (map itemId (remove_first item ps))"
  using set_remove_first [of item] by (induction ps) (auto simp: image_iff)

lemma remove_first_ex:
  "distinct (map itemId ps) \<Longrightarrow>
   (\<exists>p\<in>set (remove_first item ps). itemId p = i \<and> enabled p) \<longleftrightarrow>
   (i \<noteq> item \<and> (\<exists>p\<in>set ps. itemId p = i \<and> enabled p))"
  by (induction ps) (auto simp: image_iff)

lemma find_itemId: "find (\<lambda>p. itemId p = item) ps = Some q \<Longrightarrow> item \<in> itemId ` set ps"
  by (induction ps) (auto split: if_splits)

lemma installedOf_load [simp]:
  "installedOf (loadInstalledPlugin env st guild installed) g = installedOf st g"
  by (simp add: installedOf_def loadInstalledPlugin_def Let_def)

lemma installedOf_unload [simp]: "installedOf (unloadPlugin st guild item) g = installedOf st g"
  by (simp add: installedOf_def unloadPlugin_def split: option.splits)

lemma is_loaded_load:
  "is_loaded (loadInstalledPlugin env st guild installed) g i \<longleftrightarrow>
   (g = guild \<and> i = itemId installed) \<or> is_loaded st g i"
  by (simp add: is_loaded_def loadedOf_def loadInstalledPlugin_def Let_def update_conv')

lemma is_loaded_unload:
  "is_loaded (unloadPlugin st guild item) g i \<longleftrightarrow> \<not> (g = guild \<and> i = item) \<and> is_loaded st g i"
  by (auto simp: is_loaded_def loadedOf_def unloadPlugin_def delete_conv' split: option.splits)

lemma is_loaded_installed_upd [simp]:
  "is_loaded (st\<lparr>installedPlugins := m\<rparr>) g i = is_loaded st g i"
  by (simp add: is_loaded_def loadedOf_def)

lemma installedOf_upd:
  "installedOf (st\<lparr>installedPlugins := (installedPlugins st)(guild \<mapsto> ps)\<rparr>) g =
   (if g = guild then ps else installedOf st g)"
  by (simp add: installedOf_def)

lemma inv_new: "manager_inv newManager"
  by (simp add: manager_inv_def newManager_def installedOf_def is_loaded_def loadedOf_def
      installed_enabled_def)

lemma inv_install:
  assumes "manager_inv st"
  shows "manager_inv (snd (installPluginFromMarketplace env st now guild item))"
proof -
  have keep: "manager_inv st" by (rule assms)
  show ?thesis
  proof (cases "\<exists>mi code mf. findMarketplaceItem env item = Some mi \<and> item_status mi = ''approved''
      \<and> downloadPluginCode env (fileUrl mi) = Some code \<and> parseManifest env code = Some mf
      \<and> valid (validate code (extractImports env code) (scopes mf))
      \<and> \<not> list_ex (\<lambda>p. itemId p = item) (installedOf st guild)")
    case False
    then have "snd (installPluginFromMarketplace env st now guild item) = st"
      by (auto simp: installPluginFromMarketplace_def Let_def split: option.splits)
    with keep show ?thesis by simp
  next
    case True
    then obtain mi code mf where h: "findMarketplaceItem env item = Some mi"
      "item_status mi = ''approved''" "downloadPluginCode env (fileUrl mi) = Some code"
      "parseManifest env code = Some mf"
      "valid (validate code (extractImports env code) (scopes mf))"
      "\<not> list_ex (\<lambda>p. itemId p = item) (installedOf st guild)" by blast
    define ip where "ip = \<lparr>itemId = item, guildId = guild, manifest = mf,
        dslCode = code, settings = parseSettings env code,
        installedAt = now, enabled = True, ip_imports = extractImports env code\<rparr>"
    define st1 where "st1 = st\<lparr>installedPlugins := (installedPlugins st)(guild \<mapsto>
        installedOf st guild @ [ip])\<rparr>"
    from h have eq: "snd (installPluginFromMarketplace env st now guild item)
        = loadInstalledPlugin env st1 guild ip"
      by (simp add: installPluginFromMarketplace_def Let_def ip_def st1_def)
    from h(6) have fresh: "item \<notin> itemId ` set (installedOf st guild)"
      by (auto simp: list_ex_iff)
    have id: "itemId ip = item" and en: "enabled ip" by (simp_all add: ip_def)
    show ?thesis
      unfolding eq manager_inv_def
    proof (intro allI conjI)
      fix g
      show "distinct (map itemId (installedOf (loadInstalledPlugin env st1 guild ip) g))"
        using keep fresh id by (auto simp: manager_inv_def st1_def installedOf_upd)
    next
      fix g i
      show "is_loaded (loadInstalledPlugin env st1 guild ip) g i
            \<longleftrightarrow> installed_enabled (loadInstalledPlugin env st1 guild ip) g i"
        using keep fresh id en
        by (auto simp: manager_inv_def is_loaded_load installed_enabled_iff st1_def installedOf_upd)
    qed
  qed
qed

lemma inv_toggle:
  assumes "manager_inv st"
  shows "manager_inv (snd (togglePlugin env st guild item b))"
proof (cases "find (\<lambda>p. itemId p = item) (installedOf st guild)")
  case None
  then show ?thesis using assms by (simp add: togglePlugin_def)
next
  case (Some q)
  then have mem: "item \<in> itemId ` set (installedOf st guild)" by (rule find_itemId)
  from Some have qid: "itemId q = item" by (auto dest: find_Some_iff [THEN iffD1])
  from assms have d: "distinct (map itemId (installedOf st guild))" by (simp add: manager_inv_def)
  define st1 where "st1 = st\<lparr>installedPlugins := (installedPlugins st)(guild \<mapsto>
                        set_enabled item b (installedOf st guild))\<rparr>"
  show ?thesis
  proof (cases b)
    case True
    with Some have eq: "snd (togglePlugin env st guild item b)
        = loadInstalledPlugin env st1 guild (q\<lparr>enabled := b\<rparr>)"
      by (simp add: togglePlugin_def Let_def st1_def)
    show ?thesis unfolding eq manager_inv_def
    proof (intro allI conjI)
      fix g
      show "distinct (map itemId (installedOf (loadInstalledPlugin env st1 guild (q\<lparr>enabled := b\<rparr>)) g))"
        using assms by (auto simp: manager_inv_def st1_def installedOf_upd)
    next
      fix g i
      show "is_loaded (loadInstalledPlugin env st1 guild (q\<lparr>enabled := b\<rparr>)) g i
            \<longleftrightarrow> installed_enabled (loadInstalledPlugin env st1 guild (q\<lparr>enabled := b\<rparr>)) g i"
        using assms mem qid True set_enabled_ex [OF d, of item b i]
        by (auto simp: manager_inv_def is_loaded_load installed_enabled_iff st1_def installedOf_upd)
    qed
  next
    case False
    with Some have eq: "snd (togglePlugin env st guild item b) = unloadPlugin st1 guild item"
      by (simp add: togglePlugin_def Let_def st1_def)
    show ?thesis unfolding eq manager_inv_def
    proof (intro allI conjI)
      fix g
      show "distinct (map itemId (installedOf (unloadPlugin st1 guild item) g))"
        using assms by (auto simp: manager_inv_def st1_def installedOf_upd)
    next
      fix g i
      show "is_loaded (unloadPlugin st1 guild item) g i
            \<longleftrightarrow> installed_enabled (unloadPlugin st1 guild item) g i"
        using assms mem False set_enabled_ex [OF d, of item b i]
        by (auto simp: manager_inv_def is_loaded_unload installed_enabled_iff st1_def installedOf_upd)
    qed
  qed
qed

lemma inv_uninstall:
  assumes "manager_inv st"
  shows "manager_inv (snd (uninstallPlugin st guild item))"
proof (cases "list_ex (\<lambda>p. itemId p = item) (installedOf st guild)")
  case False
  then show ?thesis using assms by (simp add: uninstallPlugin_def)
next
  case True
  from assms have d: "distinct (map itemId (installedOf st guild))" by (simp add: manager_inv_def)
  define st1 where "st1 = st\<lparr>installedPlugins := (installedPlugins st)(guild \<mapsto>
                        remove_first item (installedOf st guild))\<rparr>"
  from True have eq: "snd (uninstallPlugin st guild item) = unloadPlugin st1 guild item"
    by (simp add: uninstallPlugin_def Let_def st1_def)
  show ?thesis unfolding eq manager_inv_def
  proof (intro allI conjI)
    fix g
    show "distinct (map itemId (installedOf (unloadPlugin st1 guild item) g))"
      using assms distinct_remove_first [OF d, of item]
      by (auto simp: manager_inv_def st1_def installedOf_upd)
  next
    fix g i
    show "is_loaded (unloadPlugin st1 guild item) g i
          \<longleftrightarrow> installed_enabled (unloadPlugin st1 guild item) g i"
      using assms remove_first_ex [OF d, of item i]
      by (auto simp: manager_inv_def is_loaded_unload installed_enabled_iff st1_def installedOf_upd)
  qed
qed

lemma reachable_inv: "reachable env st \<Longrightarrow> manager_inv st"
  by (induction rule: reachable.induct) (auto intro: inv_new inv_install inv_toggle inv_uninstall)

text \<open>
  Claim C7. In every state that the Manager reaches from its initial state by installs,
  enable or disable toggles and uninstalls, a Loaded Plugin entry exists for guild \<open>g\<close> and
  plugin \<open>p\<close> if and only if an Installed Plugin entry for them exists with
  \<open>enabled = true\<close>.
\<close>

theorem loaded_iff_installed_enabled:
  "reachable env st \<Longrightarrow> is_loaded st guild item \<longleftrightarrow> installed_enabled st guild item"
  by (drule reachable_inv) (simp add: manager_inv_def)

lemma example_valid: "valid (validate ''guilds.send(c, m)'' [] [''messages.send''])"
  by code_simp

theorem loaded_iff_installed_enabled_witness:
  "reachable exampleEnv (snd (installPluginFromMarketplace exampleEnv newManager 0 ''g'' ''p'')) \<and>
   is_loaded (snd (installPluginFromMarketplace exampleEnv newManager 0 ''g'' ''p'')) ''g'' ''p'' \<and>
   installed_enabled (snd (installPluginFromMarketplace exampleEnv newManager 0 ''g'' ''p'')) ''g'' ''p''"
proof -
  let ?st = "snd (installPluginFromMarketplace exampleEnv newManager 0 ''g'' ''p'')"
  have r: "reachable exampleEnv ?st" by (rule reachable.install [OF reachable.start])
  have e: "installed_enabled ?st ''g'' ''p''"
    using example_valid
    by (simp add: installPluginFromMarketplace_def exampleEnv_def exampleManifest_def Let_def
        installed_enabled_def installedOf_def newManager_def loadInstalledPlugin_def)
  from loaded_iff_installed_enabled [OF r, of "''g''" "''p''"] e r show ?thesis by simp
qed

section \<open>Properties of the Scope Validator\<close>

lemma str_includes_sublist: "str_includes s f \<longleftrightarrow> sublist f s"
  by (induction s) (auto simp: sublist_Cons_right)

lemma set_foldl_set_add: "set (foldl set_add acc xs) = set acc \<union> set xs"
  by (induction xs arbitrary: acc) (auto simp: set_add_def)

lemma distinct_foldl_set_add: "distinct acc \<Longrightarrow> distinct (foldl set_add acc xs)"
  by (induction xs arbitrary: acc) (auto simp: set_add_def)

lemma set_required_fold:
  "set (foldl (\<lambda>acc (feature, required).
              if str_includes code feature then foldl set_add acc required else acc) acc tbl)
   = set acc \<union> {s. \<exists>(feature, required)\<in>set tbl. sublist feature code \<and> s \<in> set required}"
proof (induction tbl arbitrary: acc)
  case Nil
  show ?case by simp
next
  case (Cons p tbl)
  obtain f r where p: "p = (f, r)" by (cases p)
  have hd: "set (if str_includes code f then foldl set_add acc r else acc)
            = set acc \<union> (if sublist f code then set r else {})"
    by (simp add: set_foldl_set_add str_includes_sublist)
  have split: "{s. \<exists>(feature, required)\<in>set (p # tbl). sublist feature code \<and> s \<in> set required}
        = (if sublist f code then set r else {})
          \<union> {s. \<exists>(feature, required)\<in>set tbl. sublist feature code \<and> s \<in> set required}"
    unfolding p by auto
  show ?case
    unfolding split by (simp add: p Cons.IH hd Un_assoc)
qed

lemma distinct_required_fold:
  "distinct acc \<Longrightarrow>
   distinct (foldl (\<lambda>acc (feature, required).
              if str_includes code feature then foldl set_add acc required else acc) acc tbl)"
  by (induction tbl arbitrary: acc) (auto simp: distinct_foldl_set_add split: prod.splits)

lemma set_requiredScopes:
  "set (requiredScopes code) =
   {s. \<exists>(feature, required)\<in>set MODULE_REQUIREMENTS. sublist feature code \<and> s \<in> set required}"
  by (simp add: requiredScopes_def set_required_fold)

lemma distinct_requiredScopes: "distinct (requiredScopes code)"
  by (simp add: requiredScopes_def distinct_required_fold)

lemma set_missingScopes:
  "set (missingScopes code declared) =
   {s. \<exists>(feature, required)\<in>set MODULE_REQUIREMENTS. sublist feature code \<and> s \<in> set required}
   - set declared"
  by (auto simp: missingScopes_def set_requiredScopes)

lemma distinct_missingScopes: "distinct (missingScopes code declared)"
  by (simp add: missingScopes_def distinct_requiredScopes)

lemma valid_validate: "valid (validate code imps declared) \<longleftrightarrow> missingScopes code declared = []"
  by (simp add: validate_def Let_def)

lemma errors_validate:
  "errors (validate code imps declared) =
   (if missingScopes code declared = [] then []
    else [''Missing required scopes in manifest: '' @ join '', '' (missingScopes code declared)])"
  by (simp add: validate_def Let_def)

text \<open>
  Claim C1. The Scope Validator returns \<open>valid = false\<close> exactly when some construct of the
  requirements table occurs in the source and requires a scope that is not declared. Its
  error then lists the missing required scopes: every required scope that is not declared,
  once each, and no declared scope. The declared imports have no influence on \<open>valid\<close> or
  on the errors: unused imports only produce warnings.
\<close>

theorem validate_missing_scopes:
  "(valid (validate code imps declared) \<longleftrightarrow>
      \<not> (\<exists>(feature, required)\<in>set MODULE_REQUIREMENTS.
           sublist feature code \<and> \<not> set required \<subseteq> set declared)) \<and>
   (\<not> valid (validate code imps declared) \<longrightarrow>
      (\<exists>missing. errors (validate code imps declared)
                   = [''Missing required scopes in manifest: '' @ join '', '' missing] \<and>
                 distinct missing \<and>
                 set missing =
                   {s. \<exists>(feature, required)\<in>set MODULE_REQUIREMENTS.
                         sublist feature code \<and> s \<in> set required} - set declared)) \<and>
   valid (validate code imps declared) = valid (validate code [] declared) \<and>
   errors (validate code imps declared) = errors (validate code [] declared)"
proof (intro conjI impI)
  have "missingScopes code declared = [] \<longleftrightarrow> set (missingScopes code declared) = {}" by simp
  also have "\<dots> \<longleftrightarrow> \<not> (\<exists>(feature, required)\<in>set MODULE_REQUIREMENTS.
           sublist feature code \<and> \<not> set required \<subseteq> set declared)"
    unfolding set_missingScopes by fast
  finally show "valid (validate code imps declared) \<longleftrightarrow>
      \<not> (\<exists>(feature, required)\<in>set MODULE_REQUIREMENTS.
           sublist feature code \<and> \<not> set required \<subseteq> set declared)"
    by (simp only: valid_validate)
next
  assume "\<not> valid (validate code imps declared)"
  then have "missingScopes code declared \<noteq> []" by (simp add: valid_validate)
  then have "errors (validate code imps declared)
       = [''Missing required scopes in manifest: '' @ join '', '' (missingScopes code declared)]"
    by (simp add: errors_validate)
  with distinct_missingScopes set_missingScopes
  show "\<exists>missing. errors (validate code imps declared)
                   = [''Missing required scopes in manifest: '' @ join '', '' missing] \<and>
                 distinct missing \<and>
                 set missing =
                   {s. \<exists>(feature, required)\<in>set MODULE_REQUIREMENTS.
                         sublist feature code \<and> s \<in> set required} - set declared"
    by blast
next
  show "valid (validate code imps declared) = valid (validate code [] declared)"
    by (simp add: valid_validate)
  show "errors (validate code imps declared) = errors (validate code [] declared)"
    by (simp add: errors_validate)
qed

lemma example_validation:
  "validate ''db.insert(t, x)'' [''discord.embeds''] [''db.read''] =
   \<lparr>valid = False, errors = [''Missing required scopes in manifest: db.write''],
    warnings = [''Unused '' @ [CHR 0x27] @ ''use'' @ [CHR 0x27] @ '' statements (can be removed): discord.embeds'']\<rparr>"
  by code_simp

theorem validate_missing_scopes_witness:
  "\<not> valid (validate ''db.insert(t, x)'' [''discord.embeds''] [''db.read'']) \<and>
   errors (validate ''db.insert(t, x)'' [''discord.embeds''] [''db.read''])
     = [''Missing required scopes in manifest: db.write''] \<and>
   valid (validate ''db.insert(t, x)'' [''discord.embeds''] [''db.read'', ''db.write''])"
proof -
  have v: "valid (validate ''db.insert(t, x)'' [] [''db.read'', ''db.write''])" by code_simp
  note eq = validate_missing_scopes [of "''db.insert(t, x)''" "[''discord.embeds'']"
      "[''db.read'', ''db.write'']", THEN conjunct2, THEN conjunct2, THEN conjunct1]
  from eq v have "valid (validate ''db.insert(t, x)'' [''discord.embeds''] [''db.read'', ''db.write''])"
    by (simp only:)
  then show ?thesis by (simp add: example_validation)
qed

section \<open>Properties of the command dispatcher\<close>

lemma bindParameters_other:
  "k \<notin> fst ` set params \<Longrightarrow> bindParameters parseInt params args i ps k = ps k"
  by (induction parseInt params args i ps rule: bindParameters.induct)
     (auto simp: obj_set_def split: ptype.splits)

lemma bindParameters_missing:
  "distinct (map fst params) \<Longrightarrow> ''__proto__'' \<notin> fst ` set params \<Longrightarrow>
   length args - i < length (filter (\<lambda>(key, def). required def) params) \<Longrightarrow>
   \<exists>(key, def)\<in>set params. required def \<and>
      bindParameters parseInt params args i ps key = Some VUndefined"
proof (induction parseInt params args i ps rule: bindParameters.induct)
  case (1 parseInt args argIndex ps)
  then show ?case by simp
next
  case (2 parseInt key def rest args argIndex ps)
  from "2.prems" have d: "distinct (map fst rest)" and fresh: "key \<notin> fst ` set rest"
    and np: "''__proto__'' \<notin> fst ` set rest" and kp: "key \<noteq> ''__proto__''" by auto
  have lift: "\<exists>(k, d)\<in>set ((key, def) # rest). required d \<and>
        bindParameters parseInt ((key, def) # rest) args argIndex ps k = Some VUndefined"
    if eq: "bindParameters parseInt ((key, def) # rest) args argIndex ps
            = bindParameters parseInt rest args j ps'"
    and ex: "\<exists>(k, d)\<in>set rest. required d \<and>
        bindParameters parseInt rest args j ps' k = Some VUndefined" for j ps'
  proof -
    from ex obtain k d where "(k, d) \<in> set rest" "required d"
      "bindParameters parseInt rest args j ps' k = Some VUndefined" by blast
    then show ?thesis unfolding eq by (intro bexI [of _ "(k, d)"]) simp_all
  qed
  show ?case
  proof (cases "argIndex < length args")
    case True
    note lt = True
    show ?thesis
    proof (cases "ptype def")
      case PString
      from "2.prems"(3) lt
      have "length args - length args < length (filter (\<lambda>(key, def). required def) rest)"
        by (auto split: if_splits)
      from "2.IH"(1) [OF lt PString d np this] show ?thesis
        by (rule lift [rotated]) (simp add: lt PString)
    next
      case PInt
      from "2.prems"(3) lt
      have "length args - (argIndex + 1) < length (filter (\<lambda>(key, def). required def) rest)"
        by (auto split: if_splits)
      from "2.IH"(2) [OF lt PInt d np this] show ?thesis
        by (rule lift [rotated]) (simp add: lt PInt)
    next
      case PBool
      from "2.prems"(3) lt
      have "length args - (argIndex + 1) < length (filter (\<lambda>(key, def). required def) rest)"
        by (auto split: if_splits)
      from "2.IH"(3) [OF lt PBool d np this] show ?thesis
        by (rule lift [rotated]) (simp add: lt PBool)
    qed
  next
    case False
    note ge = False
    show ?thesis
    proof (cases "required def")
      case True
      from fresh kp have "bindParameters parseInt rest args argIndex (obj_set ps key VUndefined) key
          = Some VUndefined"
        by (simp add: bindParameters_other obj_set_def)
      with ge True have "bindParameters parseInt ((key, def) # rest) args argIndex ps key
          = Some VUndefined" by simp
      with True show ?thesis by (intro bexI [of _ "(key, def)"]) simp_all
    next
      case False
      from "2.prems"(3) False
      have "length args - argIndex < length (filter (\<lambda>(key, def). required def) rest)" by simp
      from "2.IH"(5) [OF ge False d np this] show ?thesis
        by (rule lift [rotated]) (simp add: ge False)
    qed
  qed
qed

lemma missingParams_nonempty:
  assumes "distinct (map fst (parameters handler))"
    and "''__proto__'' \<notin> fst ` set (parameters handler)"
    and "length args < length (filter (\<lambda>(key, def). required def) (parameters handler))"
  shows "missingParams handler (bindParameters parseInt (parameters handler) args 0 Map.empty) \<noteq> []"
proof -
  from bindParameters_missing [OF assms(1,2), of args 0 parseInt Map.empty] assms(3)
  obtain key def where "(key, def) \<in> set (parameters handler)" "required def"
    "bindParameters parseInt (parameters handler) args 0 Map.empty key = Some VUndefined"
    by auto
  then have "(key, def) \<in> set (filter (\<lambda>(key, def). required def \<and>
      is_missing (obj_get (bindParameters parseInt (parameters handler) args 0 Map.empty) key))
      (parameters handler))" by (simp add: obj_get_def)
  then show ?thesis unfolding missingParams_def by (auto simp del: set_filter)
qed

lemma listeners_only_listener_context:
  "e \<in> set (handleLogicListeners evalPattern plugins message) \<Longrightarrow>
   \<exists>item code. e = ExecuteCode item code ListenerContext"
  by (auto simp: handleLogicListeners_def split: if_splits)

text \<open>
  Where the dispatcher does keep the required parameters: when no parameter of the matched
  handler has the name \<open>__proto__\<close> and the message leaves fewer positional tokens than the
  handler has required parameters, the dispatcher does nothing for the command but reply
  with the missing-parameter message, which ends with the handler's usage string. (The
  passive listeners of the guild run before the command, as on every message.)
\<close>

lemma missing_parameter_reply:
  assumes "m_guild message = Some g"
    and "loadedPlugins st g = Some guildPlugins"
    and "matchCommand guildPlugins (m_content message) = Some (item, handler, args)"
    and "distinct (map fst (parameters handler))"
    and "''__proto__'' \<notin> fst ` set (parameters handler)"
    and "length args < length (filter (\<lambda>(key, def). required def) (parameters handler))"
  shows "\<exists>missing. missing \<noteq> [] \<and>
           handleCommand parseInt evalPattern st message =
             handleLogicListeners evalPattern guildPlugins message @
             [Reply (missingParamsMessage missing (usage handler))] \<and>
           suffix (usage handler) (missingParamsMessage missing (usage handler)) \<and>
           (\<forall>ps. ExecuteCode item (onCommand handler) (CommandContext ps)
                  \<notin> set (handleCommand parseInt evalPattern st message))"
proof -
  define missing where
    "missing = missingParams handler (bindParameters parseInt (parameters handler) args 0 Map.empty)"
  have ne: "missing \<noteq> []"
    unfolding missing_def by (rule missingParams_nonempty [OF assms(4,5,6)])
  then have inv: "invokeCommand parseInt item handler args
      = [Reply (missingParamsMessage missing (usage handler))]"
    by (simp add: invokeCommand_def Let_def missing_def)
  have eq: "handleCommand parseInt evalPattern st message =
             handleLogicListeners evalPattern guildPlugins message @
             [Reply (missingParamsMessage missing (usage handler))]"
    using assms(1-3) inv by (simp add: handleCommand_def)
  have suf: "suffix (usage handler) (missingParamsMessage missing (usage handler))"
    by (simp add: missingParamsMessage_def suffix_def)
  have no: "\<forall>ps. ExecuteCode item (onCommand handler) (CommandContext ps)
                  \<notin> set (handleCommand parseInt evalPattern st message)"
    unfolding eq by (auto dest: listeners_only_listener_context)
  from ne eq suf no show ?thesis by blast
qed

text \<open>
  Claim C4 on the code. The command \<open>proto\<close> has one required parameter, named
  \<open>__proto__\<close>, and the message \<open>?proto\<close> supplies no positional token. The dispatcher's
  write of \<open>undefined\<close> under that key is ignored by the object, the test for a missing
  value reads the object's prototype there, and so nothing is reported missing: the
  dispatcher sends no reply and executes the main body.
\<close>

theorem handleCommand_proto_parameter_runs:
  "matchCommand [(''r'', protoPlugin)] ''?proto'' = Some (''r'', protoHandler, []) \<and>
   length (filter (\<lambda>(key, def). required def) (parameters protoHandler)) = 1 \<and>
   handleCommand parseInt evalPattern protoManager (exampleMessage ''?proto'')
     = [ExecuteCode ''r'' (onCommand protoHandler) (CommandContext Map.empty)]"
  by (simp add: handleCommand_def handleLogicListeners_def invokeCommand_def missingParams_def
      matchCommand_def resolveSubcommand_def toLowerCase_def lower_char_def obj_set_def obj_get_def
      object_prototype_keys_def protoHandler_def protoPlugin_def protoManager_def
      exampleMessage_def Let_def)


text \<open>
  Claim C2 on the code. \<open>handleCommand\<close> reads neither the permission fields nor the
  cooldown field of the handler, and it keeps no cooldown entry: the command \<open>greet\<close>,
  declared with \<open>cooldown 5s\<close>, runs its main body on every invocation, also on a second one
  by the same user right after the first.
\<close>

theorem handleCommand_runs_without_checks:
  "cooldown greetHandler = Some 5 \<and>
   handleCommand parseInt evalPattern exampleManager (exampleMessage ''?greet bob'')
     = [ExecuteCode ''p'' (onCommand greetHandler)
          (CommandContext [''username'' \<mapsto> VString ''bob''])]"
  by (simp add: handleCommand_def handleLogicListeners_def invokeCommand_def missingParams_def
      matchCommand_def resolveSubcommand_def toLowerCase_def lower_char_def obj_set_def obj_get_def
      greetHandler_def examplePlugin_def exampleManager_def exampleMessage_def Let_def)

text \<open>
  Claim C3 on the code. \<open>handleButton\<close> returns at the first plugin that has a handler for
  the button id, but it makes no cooldown check: two clicks of \<open>my_button\<close> (declared with
  \<open>cooldown 10s\<close>) by the same user one second apart both run the execute body.
\<close>

theorem handleButton_runs_without_cooldown:
  "map_option btn_cooldown (map_of (buttonHandlers examplePlugin) ''my_button'') = Some (Some 10) \<and>
   handleButton exampleManager
     \<lparr>i_guild = Some ''g'', customId = ''my_button'', i_userId = ''u'', createdTimestamp = 0\<rparr>
     = [ExecuteCode ''p'' ''guilds.send(interaction.channel_id, 1)'' InteractionContext] \<and>
   handleButton exampleManager
     \<lparr>i_guild = Some ''g'', customId = ''my_button'', i_userId = ''u'', createdTimestamp = 1000\<rparr>
     = [ExecuteCode ''p'' ''guilds.send(interaction.channel_id, 1)'' InteractionContext]"
  by (simp add: handleButton_def examplePlugin_def exampleManager_def)

section \<open>Properties of the HTTP rate limiter\<close>

lemma failedRequest_rejects:
  "fst (failedRequest st guild item now finished method url err calls) = Inl (method, err) \<and>
   snd (snd (failedRequest st guild item now finished method url err calls)) = calls"
  by (simp add: failedRequest_def)

lemma check_lastMinute:
  "maxRequestsPerMinute (requestLimits st) \<le> int (length (lastMinuteLogs st guild item now)) \<Longrightarrow>
   checkHttpRateLimits st guild item now
     = Inl (RateLimitPerMinute (maxRequestsPerMinute (requestLimits st)))"
proof -
  have "filter (\<lambda>log. now - 60 * 1000 < timestamp log)
          (filter (\<lambda>log. now - 60 * 60 * 1000 < timestamp log) (logsOf st guild item))
        = filter (\<lambda>log. now - 60000 < timestamp log) (logsOf st guild item)"
    by (auto simp: filter_filter intro!: filter_cong)
  then show "maxRequestsPerMinute (requestLimits st) \<le> int (length (lastMinuteLogs st guild item now))
    \<Longrightarrow> ?thesis"
    by (simp add: checkHttpRateLimits_def lastMinuteLogs_def Let_def)
qed

text \<open>
  Claim C6. A request whose (guild, plugin) key already has \<open>N\<close> or more requests logged in
  the last 60 seconds, \<open>N\<close> being the per-minute limit, is rejected by an error thrown to the
  caller and no network call is made; and a request whose URL names a host in the blocked
  set is rejected with no network call, whatever the logs of the key hold.
\<close>

theorem http_limiter_rejects:
  "(maxRequestsPerMinute (requestLimits st) \<le> int (length (lastMinuteLogs st guild item now)) \<longrightarrow>
      (\<exists>err. fst (makeRequest hostname axios st guild item now finished method url)
               = Inl (method, err)) \<and>
      snd (snd (makeRequest hostname axios st guild item now finished method url)) = [] \<and>
      (prefix ''http'' url \<and> hostname url = Some host \<and> host \<notin> blockedDomains st \<longrightarrow>
         fst (makeRequest hostname axios st guild item now finished method url)
           = Inl (method, RateLimitPerMinute (maxRequestsPerMinute (requestLimits st))))) \<and>
   (hostname url = Some host \<and> host \<in> blockedDomains st \<longrightarrow>
      (\<exists>err. fst (makeRequest hostname axios st guild item now finished method url)
               = Inl (method, err)) \<and>
      snd (snd (makeRequest hostname axios st guild item now finished method url)) = [] \<and>
      (prefix ''http'' url \<longrightarrow>
         fst (makeRequest hostname axios st guild item now finished method url)
           = Inl (method, DomainBlocked host)))"
proof (intro conjI impI)
  assume full: "maxRequestsPerMinute (requestLimits st) \<le> int (length (lastMinuteLogs st guild item now))"
  note chk = check_lastMinute [OF full]
  show "\<exists>err. fst (makeRequest hostname axios st guild item now finished method url)
               = Inl (method, err)"
    by (simp add: makeRequest_def chk failedRequest_rejects split: option.splits)
  show "snd (snd (makeRequest hostname axios st guild item now finished method url)) = []"
    by (simp add: makeRequest_def chk failedRequest_rejects split: option.splits)
  assume "prefix ''http'' url \<and> hostname url = Some host \<and> host \<notin> blockedDomains st"
  then show "fst (makeRequest hostname axios st guild item now finished method url)
           = Inl (method, RateLimitPerMinute (maxRequestsPerMinute (requestLimits st)))"
    by (simp add: makeRequest_def chk failedRequest_rejects)
next
  assume b: "hostname url = Some host \<and> host \<in> blockedDomains st"
  show "\<exists>err. fst (makeRequest hostname axios st guild item now finished method url)
               = Inl (method, err)"
    using b by (simp add: makeRequest_def failedRequest_rejects)
  show "snd (snd (makeRequest hostname axios st guild item now finished method url)) = []"
    using b by (simp add: makeRequest_def failedRequest_rejects)
  assume "prefix ''http'' url"
  with b show "fst (makeRequest hostname axios st guild item now finished method url)
           = Inl (method, DomainBlocked host)"
    by (simp add: makeRequest_def failedRequest_rejects)
qed

lemma example_last_minute: "int (length (lastMinuteLogs exampleLimited ''g'' ''p'' 3000)) = 2"
  by (simp add: lastMinuteLogs_def logsOf_def exampleLimited_def exampleLog_def)

theorem http_limiter_rejects_witness:
  "maxRequestsPerMinute (requestLimits exampleLimited) = 2 \<and>
   int (length (lastMinuteLogs exampleLimited ''g'' ''p'' 3000)) = 2 \<and>
   fst (makeRequest (\<lambda>url. Some ''api.example'') exampleAxios exampleLimited ''g'' ''p'' 3000 3001
          ''get'' ''http://api.example/x'') = Inl (''get'', RateLimitPerMinute 2) \<and>
   snd (snd (makeRequest (\<lambda>url. Some ''api.example'') exampleAxios exampleLimited ''g'' ''p'' 3000 3001
          ''get'' ''http://api.example/x'')) = [] \<and>
   ''evil.example'' \<in> blockedDomains exampleLimited \<and>
   fst (makeRequest (\<lambda>url. Some ''evil.example'') exampleAxios exampleLimited ''g'' ''q'' 3000 3001
          ''get'' ''http://evil.example/x'') = Inl (''get'', DomainBlocked ''evil.example'') \<and>
   snd (snd (makeRequest (\<lambda>url. Some ''evil.example'') exampleAxios exampleLimited ''g'' ''q'' 3000 3001
          ''get'' ''http://evil.example/x'')) = []"
proof -
  have lim: "maxRequestsPerMinute (requestLimits exampleLimited) = 2"
    and blk: "''evil.example'' \<in> blockedDomains exampleLimited"
    and ok: "''api.example'' \<notin> blockedDomains exampleLimited"
    by (simp_all add: exampleLimited_def)
  have full: "maxRequestsPerMinute (requestLimits exampleLimited)
      \<le> int (length (lastMinuteLogs exampleLimited ''g'' ''p'' 3000))"
    by (simp add: lim example_last_minute)
  note a = http_limiter_rejects [of exampleLimited "''g''" "''p''" 3000 "\<lambda>url. Some ''api.example''"
      exampleAxios 3001 "''get''" "''http://api.example/x''" "''api.example''", THEN conjunct1, rule_format, OF full]
  note b = http_limiter_rejects [of exampleLimited "''g''" "''q''" 3000 "\<lambda>url. Some ''evil.example''"
      exampleAxios 3001 "''get''" "''http://evil.example/x''" "''evil.example''", THEN conjunct2, rule_format]
  from a ok lim have a1: "fst (makeRequest (\<lambda>url. Some ''api.example'') exampleAxios exampleLimited ''g'' ''p'' 3000 3001
          ''get'' ''http://api.example/x'') = Inl (''get'', RateLimitPerMinute 2)"
    and a2: "snd (snd (makeRequest (\<lambda>url. Some ''api.example'') exampleAxios exampleLimited ''g'' ''p'' 3000 3001
          ''get'' ''http://api.example/x'')) = []" by simp_all
  from b blk have b1: "fst (makeRequest (\<lambda>url. Some ''evil.example'') exampleAxios exampleLimited ''g'' ''q'' 3000 3001
          ''get'' ''http://evil.example/x'') = Inl (''get'', DomainBlocked ''evil.example'')"
    and b2: "snd (snd (makeRequest (\<lambda>url. Some ''evil.example'') exampleAxios exampleLimited ''g'' ''q'' 3000 3001
          ''get'' ''http://evil.example/x'')) = []" by simp_all
  from lim example_last_minute a1 a2 blk b1 b2 show ?thesis by simp
qed

section \<open>Properties of the trigger facility\<close>

lemma example_regex_match:
  "find_from ''calculate.level'' (lp_dslCode examplePlugin) 0 = Some (''xp: int'', 44)"
  by code_simp

lemma example_function_body:
  "content (extractBlockContent (lp_dslCode examplePlugin) 44) = ''return xp / 100''"
  by code_simp

lemma example_name_absent: "\<not> str_includes (lp_dslCode examplePlugin) ''calculate.level''"
  by code_simp

text \<open>
  Claim C8 on the code. The source of the example plugin defines the function
  \<open>calculate_level\<close> and no other; the text \<open>calculate.level\<close> does not occur in it. The
  trigger \<open>fun:calculate.level\<close> names a function that is not defined, but the dot of the
  name, spliced into the regular expression, matches the underscore: the dispatcher raises
  no error and executes the body of \<open>calculate_level\<close>.
\<close>

theorem function_trigger_runs_other_function:
  "\<not> str_includes (lp_dslCode examplePlugin) ''calculate.level'' \<and>
   emit_trigger (functionRegexExec other) exampleManager ''g'' ''p'' ''fun:calculate.level'' None
     = ([ExecuteCode ''p'' ''return xp / 100'' (FunctionContext Map.empty)], None)"
proof
  show "\<not> str_includes (lp_dslCode examplePlugin) ''calculate.level''"
    by (rule example_name_absent)
  have pt: "parseTarget ''fun:calculate.level'' = Some (''fun'', ''calculate.level'')"
    by (simp add: parseTarget_def valid_name_def)
  have rx: "functionRegexExec other ''calculate.level'' (lp_dslCode examplePlugin)
      = Match ''xp: int'' 44"
    by (simp add: functionRegexExec_def example_regex_match is_word_def)
  have names: "paramNamesOf ''xp: int'' = [''xp'']"
    by (simp add: paramNamesOf_def trim_def is_ws_def)
  have l: "loadedPlugins exampleManager ''g'' = Some [(''p'', examplePlugin)]"
    by (simp add: exampleManager_def)
  have "handleFunctionTrigger (functionRegexExec other) exampleManager ''g'' ''p''
          ''calculate.level'' None
        = ([ExecuteCode ''p'' ''return xp / 100'' (FunctionContext Map.empty)], None)"
    by (simp add: handleFunctionTrigger_def l rx names example_function_body Let_def
        cong: if_cong)
  then show "emit_trigger (functionRegexExec other) exampleManager ''g'' ''p''
          ''fun:calculate.level'' None
        = ([ExecuteCode ''p'' ''return xp / 100'' (FunctionContext Map.empty)], None)"
    unfolding emit_trigger_def pt by simp
qed

section \<open>Properties of the reaction dispatcher\<close>

text \<open>
  Claim C9 on the code. The example plugin has two reaction handlers, each declared with
  \<open>cooldown 5s\<close> and bodies of its own; no cooldown is stored, and the bodies write none.
  User \<open>u\<close> adds a reaction at 1000 ms, each later reading of the clock being one
  millisecond on. The first handler runs its execute body and stores the cooldown under
  the key \<open>g:p:reaction_handler:u\<close>. The second handler, which has never run for the user,
  tests the same key, finds the cooldown of the first and runs its cooldown-denied body, not
  its execute body: the two handlers have one cooldown namespace, not one each.
\<close>

theorem reaction_handlers_share_cooldown:
  "cooldowns exampleManager = Map.empty \<and>
   map rh_cooldown (onReaction examplePlugin) = [Some 5, Some 5] \<and>
   fst (onMessageReactionAdd (\<lambda>n. 1000 + int n) (\<lambda>item code cds. cds) exampleManager
          exampleReaction)
     = [ExecuteCode ''p'' ''first()'' ReactionContext,
        ExecuteCode ''p'' ''second_denied()'' ReactionContext] \<and>
   cooldowns (snd (onMessageReactionAdd (\<lambda>n. 1000 + int n) (\<lambda>item code cds. cds) exampleManager
          exampleReaction))
     = [''g:p:reaction_handler:u'' \<mapsto> 6001]"
  by (simp add: onMessageReactionAdd_def exampleManager_def newManager_def examplePlugin_def
      exampleReaction_def reactionStep_def run_body_def truthy_def cdKey_def Let_def)


end
